theory Spec2Isabelle
  imports Complex_Main "HOL-Library.Monad_Syntax" "HOL-Library.Multiset"
begin

section \<open>Ring inspection: \<open>Defect_Detections/src/defect_detector.py\<close>\<close>

text \<open>
  The Python function \<open>find_and_analyze_ring\<close> thresholds an image, traces its contours,
  keeps the two of largest area, registers a centre from their centroids and scans the
  radial profile of each boundary for a jump above \<open>JUMP_THRESHOLD\<close>.

  Modelling decisions.
  \<^item> OpenCV is an external library. The four calls the function makes are the fields of
    the record \<open>cv2\<close>; every theorem holds for any such library. The type of images is
    a type parameter.
  \<^item> A contour is the list of its integer points in traversal order
    (OpenCV's array of shape \<open>(N, 1, 2)\<close>).
  \<^item> A float is modelled by the real number it denotes. The operations of the radial
    profile that round their result (\<open>np.sqrt\<close>, \<open>np.mean\<close> and the subtraction of floats)
    are the fields of the record \<open>numpy\<close>, so that every theorem holds for any rounding,
    that of IEEE double precision included. Comparison, \<open>np.abs\<close>, \<open>np.max\<close> and
    \<open>np.argmax\<close> do not round and are defined on the values. The quotients of moments in
    the \<open>try\<close> block are taken exactly.
  \<^item> Pixel coordinates are modelled as unbounded integers.
  \<^item> The returned \<open>dict\<close> is a finite map from keys to Python values.
  \<^item> An exception that leaves the function is the left summand of the result.
\<close>

subsection \<open>Data\<close>

type_synonym point = "int \<times> int"

type_synonym contour = "point list"

record moments =
  m00 :: real
  m10 :: real
  m01 :: real

text \<open>
  The library calls of the function:
  \<^item> \<open>threshold img\<close> is the mask returned by
    \<open>cv2.threshold(img, 0, 255, cv2.THRESH_BINARY_INV + cv2.THRESH_OTSU)\<close>;
  \<^item> \<open>findContours mask\<close> is the contour list returned by
    \<open>cv2.findContours(mask, cv2.RETR_TREE, cv2.CHAIN_APPROX_SIMPLE)\<close>;
  \<^item> \<open>contourArea\<close> is \<open>cv2.contourArea\<close>;
  \<^item> \<open>moments\<close> is \<open>cv2.moments\<close>, of which the function reads \<open>m00\<close>, \<open>m10\<close>, \<open>m01\<close>.
\<close>

record 'img cv2 =
  threshold :: "'img \<Rightarrow> 'img"
  findContours :: "'img \<Rightarrow> contour list"
  contourArea :: "contour \<Rightarrow> real"
  moments :: "contour \<Rightarrow> moments"

text \<open>
  The numpy operations on floats that round:
  \<^item> \<open>np_sqrt n\<close> is \<open>np.sqrt\<close> of the integer \<open>n\<close>, an element of
    \<open>((contour - (center_x, center_y))**2).sum(axis=2)\<close>;
  \<^item> \<open>np_mean\<close> is \<open>np.mean\<close> of a float array;
  \<^item> \<open>np_subtract a b\<close> is the float \<open>a - b\<close>.
\<close>

record numpy =
  np_sqrt :: "int \<Rightarrow> real"
  np_mean :: "real list \<Rightarrow> real"
  np_subtract :: "real \<Rightarrow> real \<Rightarrow> real"

datatype pyval = PyNone | PyStr string | PyTuple int int

type_synonym result = "string \<rightharpoonup> pyval"

datatype py_exception = ValueError

subsection \<open>Python and numpy primitives\<close>

text \<open>\<open>src/config.py\<close>: \<open>JUMP_THRESHOLD = 2.5\<close>.\<close>

definition JUMP_THRESHOLD :: real where
  "JUMP_THRESHOLD = 5 / 2"

text \<open>\<open>int(x)\<close> on a float truncates towards zero.\<close>

definition py_int :: "real \<Rightarrow> int" where
  "py_int x = (if x < 0 then \<lceil>x\<rceil> else \<lfloor>x\<rfloor>)"

text \<open>Float division \<open>a / b\<close> raises \<open>ZeroDivisionError\<close> (here \<open>None\<close>) when \<open>b\<close> is zero.\<close>

definition truediv :: "real \<Rightarrow> real \<Rightarrow> real option" where
  "truediv a b = (if b = 0 then None else Some (a / b))"

text \<open>
  \<open>sorted(xs, key=key, reverse=True)\<close>: the list is reversed, sorted by a stable
  ascending sort, and reversed again, so that elements of equal key keep their order.
\<close>

definition sorted_reverse :: "('a \<Rightarrow> real) \<Rightarrow> 'a list \<Rightarrow> 'a list" where
  "sorted_reverse key xs = rev (sort_key key (rev xs))"

text \<open>\<open>np.roll(xs, 1)\<close>: every element moves one place to the right, the last becomes the first.\<close>

definition np_roll1 :: "'a list \<Rightarrow> 'a list" where
  "np_roll1 xs = (if xs = [] then [] else last xs # butlast xs)"

text \<open>
  \<open>np.max\<close> of a non-empty array (the caller checks for the empty one): one of its
  elements, found by comparisons.
\<close>

fun np_max :: "real list \<Rightarrow> real" where
  "np_max [] = 0"
| "np_max (x # xs) = fold max xs x"

text \<open>
  \<open>np.argmax\<close>: one pass that keeps the best value seen and its index, and replaces them
  only on a strictly larger value.
\<close>

fun argmax_from :: "real list \<Rightarrow> nat \<Rightarrow> real \<Rightarrow> nat \<Rightarrow> nat" where
  "argmax_from [] i best bi = bi"
| "argmax_from (x # xs) i best bi =
     (if best < x then argmax_from xs (Suc i) x i else argmax_from xs (Suc i) best bi)"

fun np_argmax :: "real list \<Rightarrow> nat" where
  "np_argmax [] = 0"
| "np_argmax (x # xs) = argmax_from xs 1 x 0"

subsection \<open>The radial profile of one boundary\<close>

text \<open>
  The local variables of the loop body, as functions of the float operations, the contour
  and the centre: \<open>radii\<close>, \<open>avg_radius\<close>, \<open>diffs\<close>, \<open>max_jump\<close>, \<open>defect_idx\<close>,
  \<open>dev_radius\<close>. The squares and their sum are integers; \<open>np.sqrt\<close> gives the float.
\<close>

fun radii :: "numpy \<Rightarrow> contour \<Rightarrow> point \<Rightarrow> real list" where
  "radii np contour (center_x, center_y) =
     map (\<lambda>(x, y). np_sqrt np ((x - center_x)\<^sup>2 + (y - center_y)\<^sup>2)) contour"

definition avg_radius :: "numpy \<Rightarrow> contour \<Rightarrow> point \<Rightarrow> real" where
  "avg_radius np contour center = np_mean np (radii np contour center)"

definition diffs :: "numpy \<Rightarrow> contour \<Rightarrow> point \<Rightarrow> real list" where
  "diffs np contour center =
     map2 (\<lambda>r p. \<bar>np_subtract np r p\<bar>)
       (radii np contour center) (np_roll1 (radii np contour center))"

definition max_jump :: "numpy \<Rightarrow> contour \<Rightarrow> point \<Rightarrow> real" where
  "max_jump np contour center = np_max (diffs np contour center)"

definition defect_idx :: "numpy \<Rightarrow> contour \<Rightarrow> point \<Rightarrow> nat" where
  "defect_idx np contour center = np_argmax (diffs np contour center)"

definition deviation_idx :: "numpy \<Rightarrow> contour \<Rightarrow> point \<Rightarrow> nat" where
  "deviation_idx np contour center =
     np_argmax (map (\<lambda>r. \<bar>np_subtract np r (avg_radius np contour center)\<bar>)
       (radii np contour center))"

definition dev_radius :: "numpy \<Rightarrow> contour \<Rightarrow> point \<Rightarrow> real" where
  "dev_radius np contour center = radii np contour center ! deviation_idx np contour center"

subsection \<open>The function\<close>

text \<open>\<open>tuple(defect_point)\<close> and \<open>(center_x, center_y)\<close>: a point as a Python tuple.\<close>

definition as_tuple :: "point \<Rightarrow> pyval" where
  "as_tuple p = (case p of (x, y) \<Rightarrow> PyTuple x y)"

definition classify :: "numpy \<Rightarrow> string \<Rightarrow> contour \<Rightarrow> point \<Rightarrow> string" where
  "classify np name contour center =
     (if name = ''Outer'' then
        (if dev_radius np contour center < avg_radius np contour center
         then ''Cut'' else ''Flash'')
      else if name = ''Inner'' then
        (if dev_radius np contour center < avg_radius np contour center
         then ''Flash'' else ''Cut'')
      else ''Unknown'')"

definition defective :: "numpy \<Rightarrow> string \<Rightarrow> contour \<Rightarrow> point \<Rightarrow> result" where
  "defective np name contour center =
     [''status'' \<mapsto> PyStr ''Defective'',
      ''defect_type'' \<mapsto> PyStr (classify np name contour center),
      ''location'' \<mapsto> as_tuple (contour ! defect_idx np contour center),
      ''center'' \<mapsto> as_tuple center]"

definition good :: result where
  "good = [''status'' \<mapsto> PyStr ''Good'', ''defect_type'' \<mapsto> PyNone, ''location'' \<mapsto> PyNone]"

definition error :: "string \<Rightarrow> result" where
  "error msg = [''status'' \<mapsto> PyStr ''Error'', ''defect_type'' \<mapsto> PyStr msg]"

text \<open>
  The \<open>for\<close> loop over \<open>[(outer_contour, "Outer"), (inner_contour, "Inner")]\<close>. \<open>np.max\<close>
  raises \<open>ValueError\<close> on an empty array.
\<close>

fun scan :: "numpy \<Rightarrow> (contour \<times> string) list \<Rightarrow> point \<Rightarrow> py_exception + result" where
  "scan np [] center = Inr good"
| "scan np ((contour, name) # rest) center =
     (if diffs np contour center = [] then Inl ValueError
      else if max_jump np contour center > JUMP_THRESHOLD
      then Inr (defective np name contour center)
      else scan np rest center)"

text \<open>The \<open>try\<close> block: four divisions, any of which may raise \<open>ZeroDivisionError\<close>.\<close>

definition try_centroids :: "moments \<Rightarrow> moments \<Rightarrow> (int \<times> int \<times> int \<times> int) option" where
  "try_centroids m_outer m_inner =
     do {
       qx_outer \<leftarrow> truediv (m10 m_outer) (m00 m_outer);
       qy_outer \<leftarrow> truediv (m01 m_outer) (m00 m_outer);
       qx_inner \<leftarrow> truediv (m10 m_inner) (m00 m_inner);
       qy_inner \<leftarrow> truediv (m01 m_inner) (m00 m_inner);
       Some (py_int qx_outer, py_int qy_outer, py_int qx_inner, py_int qy_inner)
     }"

definition find_and_analyze_ring ::
  "'img cv2 \<Rightarrow> numpy \<Rightarrow> 'img \<Rightarrow> py_exception + result" where
  "find_and_analyze_ring cv np processed_image =
     (let binary_image = threshold cv processed_image;
          contours = findContours cv binary_image
      in if length contours < 2 then Inr (error ''Segmentation Failed'')
         else
           (case take 2 (sorted_reverse (contourArea cv) contours) of
              [outer_contour, inner_contour] \<Rightarrow>
                (case try_centroids (moments cv outer_contour) (moments cv inner_contour) of
                   None \<Rightarrow> Inr (error ''Could not calculate moments'')
                 | Some (cx_outer, cy_outer, cx_inner, cy_inner) \<Rightarrow>
                     let center_x = py_int (real_of_int (cx_outer + cx_inner) / 2);
                         center_y = py_int (real_of_int (cy_outer + cy_inner) / 2)
                     in scan np [(outer_contour, ''Outer''), (inner_contour, ''Inner'')]
                          (center_x, center_y))
            | _ \<Rightarrow> Inl ValueError))"

subsection \<open>Notions used to state the properties\<close>

text \<open>
  Lines 34 to 43 when no division raises: each centroid coordinate is truncated by
  \<open>int\<close>, and the mean of the two truncated coordinates is truncated again.
\<close>

definition registration_center :: "moments \<Rightarrow> moments \<Rightarrow> point" where
  "registration_center m_outer m_inner =
     (py_int (real_of_int (py_int (m10 m_outer / m00 m_outer) + py_int (m10 m_inner / m00 m_inner)) / 2),
      py_int (real_of_int (py_int (m01 m_outer / m00 m_outer) + py_int (m01 m_inner / m00 m_inner)) / 2))"

text \<open>
  The centre as the specification words it: the midpoint of the two centroids
  \<open>(m10 / m00, m01 / m00)\<close>, each coordinate rounded to the nearest integer.
\<close>

definition spec_center :: "moments \<Rightarrow> moments \<Rightarrow> pyval" where
  "spec_center m_outer m_inner =
     PyTuple (round ((m10 m_outer / m00 m_outer + m10 m_inner / m00 m_inner) / 2))
             (round ((m01 m_outer / m00 m_outer + m01 m_inner / m00 m_inner) / 2))"

text \<open>A key of the result is populated when it is present with a value other than \<open>None\<close>.\<close>

definition populated :: "result \<Rightarrow> string \<Rightarrow> bool" where
  "populated r k = (case r k of None \<Rightarrow> False | Some PyNone \<Rightarrow> False | Some _ \<Rightarrow> True)"

subsection \<open>A reference library instance and sample inputs\<close>

text \<open>
  To run the function on concrete inputs, an instance of the library interface in which an
  image is given by the list of its boundaries, and area and moments of a closed polygon
  are computed exactly by Green's formula (as OpenCV does for a contour, up to rounding):
  \<open>a00 = \<Sum> (x' y - x y')\<close> over consecutive points \<open>(x', y')\<close>, \<open>(x, y)\<close>, the area is
  \<open>\<bar>a00\<bar> / 2\<close>, and \<open>m10 = \<bar>\<Sum> (x' y - x y') (x' + x)\<bar> / 6\<close> up to the sign of \<open>a00\<close>.
\<close>

definition polygon_a00 :: "contour \<Rightarrow> int" where
  "polygon_a00 c = sum_list (map2 (\<lambda>(xp, yp) (x, y). xp * y - x * yp) (np_roll1 c) c)"

definition polygon_a10 :: "contour \<Rightarrow> int" where
  "polygon_a10 c =
     sum_list (map2 (\<lambda>(xp, yp) (x, y). (xp * y - x * yp) * (xp + x)) (np_roll1 c) c)"

definition polygon_a01 :: "contour \<Rightarrow> int" where
  "polygon_a01 c =
     sum_list (map2 (\<lambda>(xp, yp) (x, y). (xp * y - x * yp) * (yp + y)) (np_roll1 c) c)"

definition polygon_area :: "contour \<Rightarrow> real" where
  "polygon_area c = \<bar>real_of_int (polygon_a00 c)\<bar> / 2"

definition polygon_moments :: "contour \<Rightarrow> moments" where
  "polygon_moments c =
     (let s = (if polygon_a00 c < 0 then - 1 else 1) in
      if polygon_a00 c = 0 then \<lparr>m00 = 0, m10 = 0, m01 = 0\<rparr>
      else \<lparr>m00 = s * real_of_int (polygon_a00 c) / 2,
            m10 = s * real_of_int (polygon_a10 c) / 6,
            m01 = s * real_of_int (polygon_a01 c) / 6\<rparr>)"

text \<open>
  Exact arithmetic as an instance of the float operations. On the sample inputs below every
  radius is an integer and every mean a multiple of \<open>1 / 4\<close>, so that no operation rounds
  and double precision computes the same values.
\<close>

definition exact_numpy :: numpy where
  "exact_numpy =
     \<lparr>np_sqrt = (\<lambda>n. sqrt (real_of_int n)),
      np_mean = (\<lambda>xs. sum_list xs / real (length xs)),
      np_subtract = (\<lambda>a b. a - b)\<rparr>"

definition polygon_cv :: "contour list cv2" where
  "polygon_cv =
     \<lparr>threshold = (\<lambda>img. img), findContours = (\<lambda>img. img),
      contourArea = polygon_area, moments = polygon_moments\<rparr>"

text \<open>Boundaries around the point \<open>(10, 10)\<close>, with vertices on the two axes through it.\<close>

definition outer_round :: contour where
  "outer_round = [(15, 10), (10, 15), (5, 10), (10, 5)]"

definition inner_round :: contour where
  "inner_round = [(12, 10), (10, 12), (8, 10), (10, 8)]"

definition outer_flash :: contour where
  "outer_flash = [(20, 10), (10, 15), (5, 10), (10, 5)]"

definition outer_cut :: contour where
  "outer_cut = [(15, 10), (10, 15), (5, 10), (10, 9)]"

definition outer_skew :: contour where
  "outer_skew = [(17, 10), (10, 20), (5, 10), (10, 5)]"

definition inner_flash :: contour where
  "inner_flash = [(14, 10), (10, 14), (6, 10), (10, 9)]"

definition outer_oval :: contour where
  "outer_oval = [(20, 10), (10, 15), (0, 10), (10, 5)]"

definition segment :: contour where
  "segment = [(3, 3), (7, 3)]"


section \<open>Properties\<close>

subsection \<open>Library functions\<close>

lemma np_max_Max: "xs \<noteq> [] \<Longrightarrow> np_max xs = Max (set xs)"
  by (cases xs) (simp_all add: Max.set_eq_fold [symmetric])

lemma argmax_from_spec:
  assumes "length ys = i" and "bi < i" and "ys ! bi = best"
    and "\<forall>k<i. ys ! k \<le> best" and "\<forall>k<bi. ys ! k < best"
  shows "argmax_from xs i best bi < length (ys @ xs) \<and>
         (\<forall>k<length (ys @ xs). (ys @ xs) ! k \<le> (ys @ xs) ! argmax_from xs i best bi) \<and>
         (\<forall>k<argmax_from xs i best bi. (ys @ xs) ! k < (ys @ xs) ! argmax_from xs i best bi)"
  using assms
proof (induction xs arbitrary: ys i best bi)
  case Nil
  then show ?case by simp
next
  case (Cons x xs)
  show ?case
  proof (cases "best < x")
    case True
    have "argmax_from xs (Suc i) x i < length ((ys @ [x]) @ xs) \<and>
         (\<forall>k<length ((ys @ [x]) @ xs). ((ys @ [x]) @ xs) ! k \<le> ((ys @ [x]) @ xs) ! argmax_from xs (Suc i) x i) \<and>
         (\<forall>k<argmax_from xs (Suc i) x i. ((ys @ [x]) @ xs) ! k < ((ys @ [x]) @ xs) ! argmax_from xs (Suc i) x i)"
    proof (rule Cons.IH)
      show "length (ys @ [x]) = Suc i" using Cons.prems by simp
      show "i < Suc i" by simp
      show "(ys @ [x]) ! i = x" using Cons.prems(1) by (simp add: nth_append)
      show "\<forall>k<Suc i. (ys @ [x]) ! k \<le> x"
        using Cons.prems True by (auto simp: nth_append less_Suc_eq)
      show "\<forall>k<i. (ys @ [x]) ! k < x"
        using Cons.prems True by (auto simp: nth_append)
    qed
    with True show ?thesis by simp
  next
    case False
    have "argmax_from xs (Suc i) best bi < length ((ys @ [x]) @ xs) \<and>
         (\<forall>k<length ((ys @ [x]) @ xs). ((ys @ [x]) @ xs) ! k \<le> ((ys @ [x]) @ xs) ! argmax_from xs (Suc i) best bi) \<and>
         (\<forall>k<argmax_from xs (Suc i) best bi. ((ys @ [x]) @ xs) ! k < ((ys @ [x]) @ xs) ! argmax_from xs (Suc i) best bi)"
    proof (rule Cons.IH)
      show "length (ys @ [x]) = Suc i" using Cons.prems by simp
      show "bi < Suc i" using Cons.prems by simp
      show "(ys @ [x]) ! bi = best" using Cons.prems by (simp add: nth_append)
      show "\<forall>k<Suc i. (ys @ [x]) ! k \<le> best"
        using Cons.prems False by (auto simp: nth_append less_Suc_eq)
      show "\<forall>k<bi. (ys @ [x]) ! k < best"
        using Cons.prems by (auto simp: nth_append)
    qed
    with False show ?thesis by simp
  qed
qed

lemma np_argmax_spec:
  assumes "xs \<noteq> []"
  shows "np_argmax xs < length xs \<and> (\<forall>k<length xs. xs ! k \<le> xs ! np_argmax xs) \<and>
         (\<forall>k<np_argmax xs. xs ! k < xs ! np_argmax xs)"
proof -
  obtain x rest where xs: "xs = x # rest" using assms by (cases xs) auto
  have "argmax_from rest 1 x 0 < length ([x] @ rest) \<and>
         (\<forall>k<length ([x] @ rest). ([x] @ rest) ! k \<le> ([x] @ rest) ! argmax_from rest 1 x 0) \<and>
         (\<forall>k<argmax_from rest 1 x 0. ([x] @ rest) ! k < ([x] @ rest) ! argmax_from rest 1 x 0)"
    by (rule argmax_from_spec) simp_all
  then show ?thesis by (simp add: xs)
qed

lemma np_argmax_max: 
  assumes "xs \<noteq> []" shows "xs ! np_argmax xs = np_max xs"
proof -
  have a: "np_argmax xs < length xs" and b: "\<forall>k<length xs. xs ! k \<le> xs ! np_argmax xs"
    using np_argmax_spec [OF assms] by auto
  have "Max (set xs) = xs ! np_argmax xs"
  proof (rule Max_eqI)
    show "finite (set xs)" by simp
    show "xs ! np_argmax xs \<in> set xs" using a by simp
    fix y assume "y \<in> set xs"
    then show "y \<le> xs ! np_argmax xs" using b by (auto simp: in_set_conv_nth)
  qed
  then show ?thesis using assms by (simp add: np_max_Max)
qed

lemma length_radii: "length (radii np contour center) = length contour"
  by (cases center) simp

lemma length_np_roll1: "length (np_roll1 xs) = length xs"
  by (simp add: np_roll1_def)

lemma length_diffs: "length (diffs np contour center) = length contour"
  by (simp add: diffs_def length_radii length_np_roll1)

lemma diffs_empty_iff: "diffs np contour center = [] \<longleftrightarrow> contour = []"
  using length_diffs [of np contour center] by (metis length_0_conv)

lemma sorted_reverse_sort_key: "sorted_reverse key xs = sort_key (\<lambda>x. - key x) xs"
proof -
  let ?ys = "rev (sort_key key (rev xs))"
  have "sort_key (\<lambda>x. - key x) xs = ?ys"
  proof (rule properties_for_sort_key)
    show "mset ?ys = mset xs" by simp
    show "sorted (map (\<lambda>x. - key x) ?ys)"
    proof -
      have "sorted (map key (sort_key key (rev xs)))" by (rule sorted_sort_key)
      then show ?thesis by (simp add: sorted_map sorted_wrt_rev)
    qed
    fix k assume "k \<in> set ?ys"
    have eq: "(\<lambda>x. - key k = - key x) = (\<lambda>x. key x = key k)" by auto
    have "filter (\<lambda>x. key x = key k) (sort_key key (rev xs)) = filter (\<lambda>x. key x = key k) (rev xs)"
      by (rule sort_key_stable)
    then have "rev (filter (\<lambda>x. key x = key k) (sort_key key (rev xs))) = filter (\<lambda>x. key x = key k) xs"
      by (simp add: rev_filter)
    then show "filter (\<lambda>x. - key k = - key x) ?ys = filter (\<lambda>x. - key k = - key x) xs"
      unfolding eq by (simp add: rev_filter)
  qed
  then show ?thesis by (simp add: sorted_reverse_def)
qed


lemma take2_eq: "take 2 ys = [a, b] \<Longrightarrow> \<exists>zs. ys = a # b # zs"
  by (cases ys; cases "tl ys") (auto simp: numeral_2_eq_2)

lemma top_two_sort_key:
  fixes key :: "'a \<Rightarrow> real"
  assumes "2 \<le> length cs"
  shows "\<exists>i j. i < length cs \<and> j < length cs \<and> i \<noteq> j \<and>
           take 2 (sort_key (\<lambda>x. - key x) cs) = [cs ! i, cs ! j] \<and>
           (\<forall>k<length cs. key (cs ! k) \<le> key (cs ! i)) \<and>
           (\<forall>k<length cs. k \<noteq> i \<longrightarrow> key (cs ! k) \<le> key (cs ! j)) \<and>
           (\<forall>k<i. key (cs ! k) < key (cs ! i)) \<and>
           (\<forall>k<j. k \<noteq> i \<longrightarrow> key (cs ! k) < key (cs ! j))"
  using assms
proof (induction cs)
  case Nil
  then show ?case by simp
next
  case (Cons x xs)
  show ?case
  proof (cases "2 \<le> length xs")
    case False
    with Cons.prems have "length xs = 1" by simp
    then obtain y where xs: "xs = [y]" by (cases xs) auto
    show ?thesis
    proof (cases "key x < key y")
      case True
      show ?thesis
        by (rule exI [of _ 1], rule exI [of _ 0]) (use True xs in \<open>auto simp: less_Suc_eq numeral_2_eq_2\<close>)
    next
      case False
      show ?thesis
        by (rule exI [of _ 0], rule exI [of _ 1]) (use False xs in \<open>auto simp: less_Suc_eq numeral_2_eq_2\<close>)
    qed
  next
    case True
    from Cons.IH [OF True] obtain i j where
      i: "i < length xs" and j: "j < length xs" and ij: "i \<noteq> j" and
      t: "take 2 (sort_key (\<lambda>x. - key x) xs) = [xs ! i, xs ! j]" and
      A: "\<forall>k<length xs. key (xs ! k) \<le> key (xs ! i)" and
      B: "\<forall>k<length xs. k \<noteq> i \<longrightarrow> key (xs ! k) \<le> key (xs ! j)" and
      C: "\<forall>k<i. key (xs ! k) < key (xs ! i)" and
      D: "\<forall>k<j. k \<noteq> i \<longrightarrow> key (xs ! k) < key (xs ! j)"
      by blast
    from take2_eq [OF t] obtain zs where
      ys: "sort_key (\<lambda>x. - key x) xs = xs ! i # xs ! j # zs" by blast
    consider (first) "key (xs ! i) \<le> key x"
      | (second) "key x < key (xs ! i)" "key (xs ! j) \<le> key x"
      | (third) "key x < key (xs ! i)" "key x < key (xs ! j)"
      by linarith
    then show ?thesis
    proof cases
      case first
      have sel: "take 2 (sort_key (\<lambda>x. - key x) (x # xs)) = [(x # xs) ! 0, (x # xs) ! Suc i]"
        using first ys by simp
      have a: "\<forall>k<length (x # xs). key ((x # xs) ! k) \<le> key ((x # xs) ! 0)"
      proof (intro allI impI)
        fix k assume k: "k < length (x # xs)"
        show "key ((x # xs) ! k) \<le> key ((x # xs) ! 0)"
        proof (cases k)
          case 0
          then show ?thesis by simp
        next
          case (Suc k')
          with k have "k' < length xs" by simp
          with A have "key (xs ! k') \<le> key (xs ! i)" by blast
          with first Suc show ?thesis by simp
        qed
      qed
      have b: "\<forall>k<length (x # xs). k \<noteq> 0 \<longrightarrow> key ((x # xs) ! k) \<le> key ((x # xs) ! Suc i)"
        using A by (auto simp: nth_Cons')
      have d: "\<forall>k<Suc i. k \<noteq> 0 \<longrightarrow> key ((x # xs) ! k) < key ((x # xs) ! Suc i)"
        using C by (auto simp: nth_Cons')
      show ?thesis
        by (rule exI [of _ 0], rule exI [of _ "Suc i"]) (use i sel a b d in simp)
    next
      case second
      have sel: "take 2 (sort_key (\<lambda>x. - key x) (x # xs)) = [(x # xs) ! Suc i, (x # xs) ! 0]"
        using second ys by simp
      have a: "\<forall>k<length (x # xs). key ((x # xs) ! k) \<le> key ((x # xs) ! Suc i)"
        using second A by (auto simp: nth_Cons')
      have b: "\<forall>k<length (x # xs). k \<noteq> Suc i \<longrightarrow> key ((x # xs) ! k) \<le> key ((x # xs) ! 0)"
      proof (intro allI impI)
        fix k assume k: "k < length (x # xs)" "k \<noteq> Suc i"
        show "key ((x # xs) ! k) \<le> key ((x # xs) ! 0)"
        proof (cases k)
          case 0
          then show ?thesis by simp
        next
          case (Suc k')
          with k have "k' < length xs" "k' \<noteq> i" by auto
          with B have "key (xs ! k') \<le> key (xs ! j)" by blast
          with second Suc show ?thesis by simp
        qed
      qed
      have c: "\<forall>k<Suc i. key ((x # xs) ! k) < key ((x # xs) ! Suc i)"
        using second C by (auto simp: nth_Cons')
      show ?thesis
        by (rule exI [of _ "Suc i"], rule exI [of _ 0]) (use i sel a b c in simp)
    next
      case third
      have sel: "take 2 (sort_key (\<lambda>x. - key x) (x # xs)) = [(x # xs) ! Suc i, (x # xs) ! Suc j]"
        using third ys by simp
      have a: "\<forall>k<length (x # xs). key ((x # xs) ! k) \<le> key ((x # xs) ! Suc i)"
        using third A by (auto simp: nth_Cons')
      have b: "\<forall>k<length (x # xs). k \<noteq> Suc i \<longrightarrow> key ((x # xs) ! k) \<le> key ((x # xs) ! Suc j)"
        using third B by (auto simp: nth_Cons')
      have c: "\<forall>k<Suc i. key ((x # xs) ! k) < key ((x # xs) ! Suc i)"
        using third C by (auto simp: nth_Cons')
      have d: "\<forall>k<Suc j. k \<noteq> Suc i \<longrightarrow> key ((x # xs) ! k) < key ((x # xs) ! Suc j)"
        using third D by (auto simp: nth_Cons')
      show ?thesis
        by (rule exI [of _ "Suc i"], rule exI [of _ "Suc j"]) (use i j ij sel a b c d in simp)
    qed
  qed
qed


subsection \<open>The radial profile\<close>

lemma np_roll1_nth:
  assumes "k < length xs"
  shows "np_roll1 xs ! k = (if k = 0 then xs ! (length xs - 1) else xs ! (k - 1))"
proof -
  have ne: "xs \<noteq> []" using assms by auto
  show ?thesis
  proof (cases k)
    case 0
    with ne show ?thesis by (simp add: np_roll1_def last_conv_nth)
  next
    case (Suc j)
    with assms ne show ?thesis by (simp add: np_roll1_def nth_butlast)
  qed
qed

lemma diffs_nth:
  assumes "k < length contour"
  shows "diffs np contour c ! k =
         \<bar>np_subtract np (radii np contour c ! k) (radii np contour c ! (if k = 0 then length contour - 1 else k - 1))\<bar>"
  using assms np_roll1_nth [of k "radii np contour c"]
  by (simp add: diffs_def length_radii length_np_roll1 del: radii.simps)

lemma defect_idx_spec:
  assumes "contour \<noteq> []"
  shows "defect_idx np contour c < length contour \<and>
         diffs np contour c ! defect_idx np contour c = max_jump np contour c \<and>
         (\<forall>k<length contour. diffs np contour c ! k \<le> max_jump np contour c) \<and>
         (\<forall>k<defect_idx np contour c. diffs np contour c ! k < max_jump np contour c)"
proof -
  have ne: "diffs np contour c \<noteq> []" using assms by (simp add: diffs_empty_iff)
  from np_argmax_spec [OF ne] np_argmax_max [OF ne] show ?thesis
    by (simp add: defect_idx_def max_jump_def length_diffs)
qed

lemma deviation_idx_spec:
  assumes "contour \<noteq> []"
  shows "deviation_idx np contour c < length contour \<and>
         (\<forall>k<length contour. \<bar>np_subtract np (radii np contour c ! k) (avg_radius np contour c)\<bar>
              \<le> \<bar>np_subtract np (dev_radius np contour c) (avg_radius np contour c)\<bar>) \<and>
         (\<forall>k<deviation_idx np contour c. \<bar>np_subtract np (radii np contour c ! k) (avg_radius np contour c)\<bar>
              < \<bar>np_subtract np (dev_radius np contour c) (avg_radius np contour c)\<bar>)"
proof -
  let ?ds = "map (\<lambda>r. \<bar>np_subtract np r (avg_radius np contour c)\<bar>) (radii np contour c)"
  have ne: "?ds \<noteq> []" using assms length_radii [of np contour c] by auto
  have len: "length ?ds = length contour" by (simp add: length_radii del: radii.simps)
  from np_argmax_spec [OF ne] have
    a: "deviation_idx np contour c < length contour" and
    b: "\<forall>k<length contour. ?ds ! k \<le> ?ds ! deviation_idx np contour c" and
    d: "\<forall>k<deviation_idx np contour c. ?ds ! k < ?ds ! deviation_idx np contour c"
    unfolding deviation_idx_def [symmetric] len by auto
  have nth: "?ds ! k = \<bar>np_subtract np (radii np contour c ! k) (avg_radius np contour c)\<bar>" if "k < length contour" for k
    using that by (simp add: length_radii del: radii.simps)
  show ?thesis
    using a b d nth by (auto simp: dev_radius_def simp del: radii.simps)
qed

subsection \<open>The stages of the function\<close>

lemma try_centroids_Some:
  "m00 mo \<noteq> 0 \<Longrightarrow> m00 mi \<noteq> 0 \<Longrightarrow>
   try_centroids mo mi =
     Some (py_int (m10 mo / m00 mo), py_int (m01 mo / m00 mo),
           py_int (m10 mi / m00 mi), py_int (m01 mi / m00 mi))"
  by (simp add: try_centroids_def truediv_def)

lemma try_centroids_None:
  "m00 mo = 0 \<or> m00 mi = 0 \<Longrightarrow> try_centroids mo mi = None"
  by (auto simp: try_centroids_def truediv_def)

lemma length_sorted_reverse: "length (sorted_reverse key xs) = length xs"
  by (simp add: sorted_reverse_def)

lemma take2_pair:
  assumes "2 \<le> length cs"
  shows "\<exists>a b. take 2 (sorted_reverse key cs) = [a, b]"
proof -
  have "length (take 2 (sorted_reverse key cs)) = 2"
    using assms by (simp add: length_sorted_reverse)
  then show ?thesis
    by (metis (no_types) length_0_conv length_Suc_conv numeral_2_eq_2)
qed

lemma ring_short:
  "length (findContours cv (threshold cv img)) < 2 \<Longrightarrow>
   find_and_analyze_ring cv np img = Inr (error ''Segmentation Failed'')"
  by (simp add: find_and_analyze_ring_def)

lemma ring_moments_error:
  assumes "2 \<le> length (findContours cv (threshold cv img))"
    and "take 2 (sorted_reverse (contourArea cv) (findContours cv (threshold cv img))) = [outer, inner]"
    and "m00 (moments cv outer) = 0 \<or> m00 (moments cv inner) = 0"
  shows "find_and_analyze_ring cv np img = Inr (error ''Could not calculate moments'')"
  using assms(1,2) try_centroids_None [OF assms(3)]
  by (simp add: find_and_analyze_ring_def)

lemma ring_scan:
  assumes "2 \<le> length (findContours cv (threshold cv img))"
    and "take 2 (sorted_reverse (contourArea cv) (findContours cv (threshold cv img))) = [outer, inner]"
    and "m00 (moments cv outer) \<noteq> 0" and "m00 (moments cv inner) \<noteq> 0"
  shows "find_and_analyze_ring cv np img =
         scan np [(outer, ''Outer''), (inner, ''Inner'')]
           (registration_center (moments cv outer) (moments cv inner))"
  using assms(1,2) try_centroids_Some [OF assms(3,4)]
  by (simp add: find_and_analyze_ring_def registration_center_def del: scan.simps)

lemma scan_two:
  assumes "outer \<noteq> []" and "inner \<noteq> []"
  shows "scan np [(outer, ''Outer''), (inner, ''Inner'')] c =
         (if max_jump np outer c > JUMP_THRESHOLD then Inr (defective np ''Outer'' outer c)
          else if max_jump np inner c > JUMP_THRESHOLD then Inr (defective np ''Inner'' inner c)
          else Inr good)"
  using assms by (simp add: diffs_empty_iff)

lemma scan_step:
  assumes "b \<noteq> []"
  shows "scan np ((b, name) # rest) c =
         (if 5 / 2 < max_jump np b c then Inr (defective np name b c) else scan np rest c)"
  using assms by (simp add: diffs_empty_iff JUMP_THRESHOLD_def)

lemma scan_first:
  assumes "outer \<noteq> []" and "max_jump np outer c > JUMP_THRESHOLD"
  shows "scan np ((outer, name) # rest) c = Inr (defective np name outer c)"
  using assms by (simp add: diffs_empty_iff)

lemma scan_result:
  "scan np xs c = Inr r \<Longrightarrow>
   r = good \<or> (\<exists>contour name. (contour, name) \<in> set xs \<and> contour \<noteq> [] \<and>
        max_jump np contour c > JUMP_THRESHOLD \<and> r = defective np name contour c)"
proof (induction xs)
  case Nil
  then show ?case by simp
next
  case (Cons a xs)
  obtain contour name where a: "a = (contour, name)" by (cases a)
  show ?case
  proof (cases "max_jump np contour c > JUMP_THRESHOLD")
    case True
    with Cons.prems a show ?thesis
      by (auto simp: diffs_empty_iff split: if_splits)
  next
    case False
    with Cons.prems a have "scan np xs c = Inr r" by (simp split: if_splits)
    with Cons.IH show ?thesis by auto
  qed
qed

lemma ring_result:
  assumes "find_and_analyze_ring cv np img = Inr r"
  shows "r = error ''Segmentation Failed'' \<or> r = error ''Could not calculate moments'' \<or>
         r = good \<or> (\<exists>name contour c. r = defective np name contour c)"
proof (cases "length (findContours cv (threshold cv img)) < 2")
  case True
  with assms show ?thesis by (simp add: ring_short)
next
  case False
  then have len: "2 \<le> length (findContours cv (threshold cv img))" by simp
  then obtain outer inner where
    sel: "take 2 (sorted_reverse (contourArea cv) (findContours cv (threshold cv img))) = [outer, inner]"
    by (metis take2_pair)
  show ?thesis
  proof (cases "m00 (moments cv outer) = 0 \<or> m00 (moments cv inner) = 0")
    case True
    from ring_moments_error [OF len sel True] assms show ?thesis by simp
  next
    case False
    then have "find_and_analyze_ring cv np img =
         scan np [(outer, ''Outer''), (inner, ''Inner'')]
           (registration_center (moments cv outer) (moments cv inner))"
      using ring_scan [OF len sel] by simp
    with assms scan_result show ?thesis by metis
  qed
qed


lemma max_jump_spec:
  assumes "contour \<noteq> []"
  shows "(\<exists>k<length contour. diffs np contour c ! k = max_jump np contour c) \<and>
         (\<forall>k<length contour. diffs np contour c ! k \<le> max_jump np contour c \<and>
            diffs np contour c ! k =
              \<bar>np_subtract np (radii np contour c ! k) (radii np contour c ! (if k = 0 then length contour - 1 else k - 1))\<bar>)"
  using defect_idx_spec [OF assms, of np c] diffs_nth [of _ contour np c] by blast

lemma ring_scan_outer:
  assumes "2 \<le> length (findContours cv (threshold cv img))"
    and "take 2 (sorted_reverse (contourArea cv) (findContours cv (threshold cv img))) = [outer, inner]"
    and "m00 (moments cv outer) \<noteq> 0" and "m00 (moments cv inner) \<noteq> 0"
    and "c = registration_center (moments cv outer) (moments cv inner)"
    and "outer \<noteq> []" and "JUMP_THRESHOLD < max_jump np outer c"
  shows "find_and_analyze_ring cv np img = Inr (defective np ''Outer'' outer c)"
  using ring_scan [OF assms(1-4)] scan_first [OF assms(6,7)] assms(5) by simp

lemma ring_scan_inner:
  assumes "2 \<le> length (findContours cv (threshold cv img))"
    and "take 2 (sorted_reverse (contourArea cv) (findContours cv (threshold cv img))) = [outer, inner]"
    and "m00 (moments cv outer) \<noteq> 0" and "m00 (moments cv inner) \<noteq> 0"
    and "c = registration_center (moments cv outer) (moments cv inner)"
    and "outer \<noteq> []" and "\<not> JUMP_THRESHOLD < max_jump np outer c"
    and "inner \<noteq> []" and "JUMP_THRESHOLD < max_jump np inner c"
  shows "find_and_analyze_ring cv np img = Inr (defective np ''Inner'' inner c)"
  using ring_scan [OF assms(1-4)] scan_two [OF assms(6,8), of np c] assms(5,7,9) by simp

lemma ring_scan_good:
  assumes "2 \<le> length (findContours cv (threshold cv img))"
    and "take 2 (sorted_reverse (contourArea cv) (findContours cv (threshold cv img))) = [outer, inner]"
    and "m00 (moments cv outer) \<noteq> 0" and "m00 (moments cv inner) \<noteq> 0"
    and "c = registration_center (moments cv outer) (moments cv inner)"
    and "outer \<noteq> []" and "\<not> JUMP_THRESHOLD < max_jump np outer c"
    and "inner \<noteq> []" and "\<not> JUMP_THRESHOLD < max_jump np inner c"
  shows "find_and_analyze_ring cv np img = Inr good"
  using ring_scan [OF assms(1-4)] scan_two [OF assms(6,8), of np c] assms(5,7,9) by simp

lemma classify_outer:
  "classify np ''Outer'' contour c =
   (if dev_radius np contour c < avg_radius np contour c then ''Cut'' else ''Flash'')"
  by (simp add: classify_def)

lemma classify_inner:
  "classify np ''Inner'' contour c =
   (if dev_radius np contour c < avg_radius np contour c then ''Flash'' else ''Cut'')"
  by (simp add: classify_def)

subsection \<open>The sample inputs, evaluated\<close>

lemma exact_numpy_fields:
  "np_sqrt exact_numpy n = sqrt (real_of_int n)"
  "np_mean exact_numpy xs = sum_list xs / real (length xs)"
  "np_subtract exact_numpy a b = a - b"
  by (simp_all add: exact_numpy_def)

lemma sqrt_squares:
  "sqrt 1 = 1" "sqrt 4 = 2" "sqrt 16 = 4" "sqrt 25 = 5" "sqrt 49 = 7" "sqrt 100 = 10"
  by (simp_all add: real_sqrt_unique)

lemma area_vals:
  "polygon_area outer_round = 50" "polygon_area inner_round = 8" "polygon_area outer_flash = 75"
  "polygon_area outer_cut = 30" "polygon_area outer_skew = 90" "polygon_area inner_flash = 20"
  "polygon_area segment = 0" "polygon_area outer_oval = 100"
  by (simp_all add: polygon_area_def polygon_a00_def np_roll1_def outer_round_def inner_round_def
      outer_flash_def outer_cut_def outer_skew_def inner_flash_def segment_def outer_oval_def)

lemma moments_vals:
  "polygon_moments outer_round = \<lparr>m00 = 50, m10 = 500, m01 = 500\<rparr>"
  "polygon_moments inner_round = \<lparr>m00 = 8, m10 = 80, m01 = 80\<rparr>"
  "polygon_moments outer_flash = \<lparr>m00 = 75, m10 = 875, m01 = 750\<rparr>"
  "polygon_moments outer_cut = \<lparr>m00 = 30, m10 = 300, m01 = 340\<rparr>"
  "polygon_moments outer_skew = \<lparr>m00 = 90, m10 = 960, m01 = 1050\<rparr>"
  "polygon_moments inner_flash = \<lparr>m00 = 20, m10 = 200, m01 = 220\<rparr>"
  "polygon_moments segment = \<lparr>m00 = 0, m10 = 0, m01 = 0\<rparr>"
  "polygon_moments outer_oval = \<lparr>m00 = 100, m10 = 1000, m01 = 1000\<rparr>"
  by (simp_all add: polygon_moments_def polygon_a00_def polygon_a10_def polygon_a01_def
      np_roll1_def outer_round_def inner_round_def outer_flash_def outer_cut_def outer_skew_def
      inner_flash_def segment_def outer_oval_def)

lemma sorted_reverse_two:
  "sorted_reverse key [a, b] = (if key a < key b then [b, a] else [a, b])"
  by (simp add: sorted_reverse_def)

lemma radii_vals:
  "radii exact_numpy outer_round (10, 10) = [5, 5, 5, 5]"
  "radii exact_numpy inner_round (10, 10) = [2, 2, 2, 2]"
  "radii exact_numpy outer_flash (10, 10) = [10, 5, 5, 5]"
  "radii exact_numpy outer_cut (10, 10) = [5, 5, 5, 1]"
  "radii exact_numpy outer_skew (10, 10) = [7, 10, 5, 5]"
  "radii exact_numpy inner_flash (10, 10) = [4, 4, 4, 1]"
  by (simp_all add: outer_round_def inner_round_def outer_flash_def outer_cut_def
      outer_skew_def inner_flash_def sqrt_squares exact_numpy_fields)

lemma diffs_vals:
  "diffs exact_numpy outer_round (10, 10) = [0, 0, 0, 0]"
  "diffs exact_numpy inner_round (10, 10) = [0, 0, 0, 0]"
  "diffs exact_numpy outer_flash (10, 10) = [5, 5, 0, 0]"
  "diffs exact_numpy outer_cut (10, 10) = [4, 0, 0, 4]"
  "diffs exact_numpy outer_skew (10, 10) = [2, 3, 5, 0]"
  "diffs exact_numpy inner_flash (10, 10) = [3, 0, 0, 3]"
  by (simp_all add: diffs_def radii_vals np_roll1_def exact_numpy_fields del: radii.simps)

lemma center_vals:
  "registration_center \<lparr>m00 = 50, m10 = 500, m01 = 500\<rparr> \<lparr>m00 = 8, m10 = 80, m01 = 80\<rparr> = (10, 10)"
  "registration_center \<lparr>m00 = 75, m10 = 875, m01 = 750\<rparr> \<lparr>m00 = 8, m10 = 80, m01 = 80\<rparr> = (10, 10)"
  "registration_center \<lparr>m00 = 30, m10 = 300, m01 = 340\<rparr> \<lparr>m00 = 8, m10 = 80, m01 = 80\<rparr> = (10, 10)"
  "registration_center \<lparr>m00 = 90, m10 = 960, m01 = 1050\<rparr> \<lparr>m00 = 8, m10 = 80, m01 = 80\<rparr> = (10, 10)"
  "registration_center \<lparr>m00 = 50, m10 = 500, m01 = 500\<rparr> \<lparr>m00 = 20, m10 = 200, m01 = 220\<rparr> = (10, 10)"
  "registration_center \<lparr>m00 = 75, m10 = 875, m01 = 750\<rparr> \<lparr>m00 = 20, m10 = 200, m01 = 220\<rparr> = (10, 10)"
  "registration_center \<lparr>m00 = 100, m10 = 1000, m01 = 1000\<rparr> \<lparr>m00 = 8, m10 = 80, m01 = 80\<rparr> = (10, 10)"
  by (simp_all add: registration_center_def py_int_def)

lemma max_jump_vals:
  "max_jump exact_numpy outer_round (10, 10) = 0"
  "max_jump exact_numpy inner_round (10, 10) = 0"
  "max_jump exact_numpy outer_flash (10, 10) = 5"
  "max_jump exact_numpy outer_cut (10, 10) = 4"
  "max_jump exact_numpy outer_skew (10, 10) = 5"
  "max_jump exact_numpy inner_flash (10, 10) = 3"
  by (simp_all add: max_jump_def diffs_vals)

lemma nonempty_vals:
  "outer_round \<noteq> []" "inner_round \<noteq> []" "outer_flash \<noteq> []" "outer_cut \<noteq> []"
  "outer_skew \<noteq> []" "inner_flash \<noteq> []" "segment \<noteq> []" "outer_oval \<noteq> []"
  by (simp_all add: outer_round_def inner_round_def outer_flash_def outer_cut_def
      outer_skew_def inner_flash_def segment_def outer_oval_def)

lemma traced_vals:
  "findContours polygon_cv (threshold polygon_cv img) = img"
  "contourArea polygon_cv = polygon_area"
  "moments polygon_cv = polygon_moments"
  by (simp_all add: polygon_cv_def)

lemma selected_vals:
  "take 2 (sorted_reverse polygon_area [outer_round, inner_round]) = [outer_round, inner_round]"
  "take 2 (sorted_reverse polygon_area [inner_round, outer_flash]) = [outer_flash, inner_round]"
  "take 2 (sorted_reverse polygon_area [outer_cut, inner_round]) = [outer_cut, inner_round]"
  "take 2 (sorted_reverse polygon_area [inner_round, outer_skew]) = [outer_skew, inner_round]"
  "take 2 (sorted_reverse polygon_area [outer_round, inner_flash]) = [outer_round, inner_flash]"
  "take 2 (sorted_reverse polygon_area [inner_flash, outer_flash]) = [outer_flash, inner_flash]"
  "take 2 (sorted_reverse polygon_area [segment, outer_round]) = [outer_round, segment]"
  "take 2 (sorted_reverse polygon_area [outer_oval, inner_round]) = [outer_oval, inner_round]"
  by (simp_all add: sorted_reverse_two area_vals)

lemma run_flash:
  "find_and_analyze_ring polygon_cv exact_numpy [inner_round, outer_flash] =
   Inr (defective exact_numpy ''Outer'' outer_flash (10, 10))"
proof -
  have "find_and_analyze_ring polygon_cv exact_numpy [inner_round, outer_flash] =
        scan exact_numpy [(outer_flash, ''Outer''), (inner_round, ''Inner'')]
          (registration_center (moments polygon_cv outer_flash) (moments polygon_cv inner_round))"
    by (rule ring_scan) (simp_all add: traced_vals selected_vals moments_vals)
  then show ?thesis
    by (simp add: traced_vals moments_vals center_vals scan_two nonempty_vals max_jump_vals
        JUMP_THRESHOLD_def del: scan.simps)
qed

lemma defective_fields:
  "defective np name contour c ''status'' = Some (PyStr ''Defective'')"
  "defective np name contour c ''defect_type'' = Some (PyStr (classify np name contour c))"
  "defective np name contour c ''location'' = Some (as_tuple (contour ! defect_idx np contour c))"
  "defective np name contour c ''center'' = Some (as_tuple c)"
  by (simp_all add: defective_def)

lemma good_fields:
  "good ''status'' = Some (PyStr ''Good'')" "good ''defect_type'' = Some PyNone"
  "good ''location'' = Some PyNone" "good ''center'' = None"
  by (simp_all add: good_def)

lemma error_fields:
  "error msg ''status'' = Some (PyStr ''Error'')" "error msg ''defect_type'' = Some (PyStr msg)"
  "error msg ''location'' = None" "error msg ''center'' = None"
  by (simp_all add: error_def)

lemma avg_vals:
  "avg_radius exact_numpy outer_flash (10, 10) = 25 / 4"
  "avg_radius exact_numpy outer_cut (10, 10) = 4"
  "avg_radius exact_numpy outer_skew (10, 10) = 27 / 4"
  "avg_radius exact_numpy inner_flash (10, 10) = 13 / 4"
  by (simp_all add: avg_radius_def exact_numpy_fields radii_vals del: radii.simps)

lemma defect_idx_vals:
  "defect_idx exact_numpy outer_flash (10, 10) = 0"
  "defect_idx exact_numpy outer_cut (10, 10) = 0"
  "defect_idx exact_numpy outer_skew (10, 10) = 2"
  "defect_idx exact_numpy inner_flash (10, 10) = 0"
  by (simp_all add: defect_idx_def diffs_vals)

lemma deviation_idx_vals:
  "deviation_idx exact_numpy outer_flash (10, 10) = 0"
  "deviation_idx exact_numpy outer_cut (10, 10) = 3"
  "deviation_idx exact_numpy outer_skew (10, 10) = 1"
  "deviation_idx exact_numpy inner_flash (10, 10) = 3"
  by (simp_all add: deviation_idx_def avg_vals radii_vals exact_numpy_fields del: radii.simps)

lemma dev_radius_vals:
  "dev_radius exact_numpy outer_flash (10, 10) = 10"
  "dev_radius exact_numpy outer_cut (10, 10) = 1"
  "dev_radius exact_numpy outer_skew (10, 10) = 10"
  "dev_radius exact_numpy inner_flash (10, 10) = 1"
  by (simp_all add: dev_radius_def deviation_idx_vals radii_vals del: radii.simps)

lemma point_vals:
  "outer_flash ! 0 = (20, 10)" "outer_cut ! 0 = (15, 10)" "outer_skew ! 2 = (5, 10)"
  "outer_skew ! 1 = (10, 20)" "inner_flash ! 0 = (14, 10)"
  by (simp_all add: outer_flash_def outer_cut_def outer_skew_def inner_flash_def)

lemma run_skew:
  "find_and_analyze_ring polygon_cv exact_numpy [inner_round, outer_skew] =
   Inr (defective exact_numpy ''Outer'' outer_skew (10, 10))"
proof -
  have "find_and_analyze_ring polygon_cv exact_numpy [inner_round, outer_skew] =
        scan exact_numpy [(outer_skew, ''Outer''), (inner_round, ''Inner'')]
          (registration_center (moments polygon_cv outer_skew) (moments polygon_cv inner_round))"
    by (rule ring_scan) (simp_all add: traced_vals selected_vals moments_vals)
  then show ?thesis
    by (simp add: traced_vals moments_vals center_vals scan_two nonempty_vals max_jump_vals
        JUMP_THRESHOLD_def del: scan.simps)
qed

lemma spec_center_val:
  "spec_center \<lparr>m00 = 75, m10 = 875, m01 = 750\<rparr> \<lparr>m00 = 8, m10 = 80, m01 = 80\<rparr> = PyTuple 11 10"
  by (simp add: spec_center_def round_def)


section \<open>The claims\<close>

text \<open>
  Claim C1 says that the centre of a Defective result is the midpoint of the two centroids
  with each coordinate rounded to the nearest integer. It is not: for the ring made of
  \<open>outer_flash\<close> (centroid \<open>(11.67, 10)\<close>) and \<open>inner_round\<close> (centroid \<open>(10, 10)\<close>) the
  midpoint is \<open>(10.83, 10)\<close>, whose nearest integer point is \<open>(11, 10)\<close>, and the function
  returns the centre \<open>(10, 10)\<close>.
\<close>

theorem center_rounding_counterexample:
  "find_and_analyze_ring polygon_cv exact_numpy [inner_round, outer_flash] =
     Inr (defective exact_numpy ''Outer'' outer_flash (10, 10)) \<and>
   take 2 (sorted_reverse (contourArea polygon_cv)
     (findContours polygon_cv (threshold polygon_cv [inner_round, outer_flash]))) =
     [outer_flash, inner_round] \<and>
   m00 (moments polygon_cv outer_flash) \<noteq> 0 \<and> m00 (moments polygon_cv inner_round) \<noteq> 0 \<and>
   defective exact_numpy ''Outer'' outer_flash (10, 10) ''status'' = Some (PyStr ''Defective'') \<and>
   defective exact_numpy ''Outer'' outer_flash (10, 10) ''center'' = Some (PyTuple 10 10) \<and>
   spec_center (moments polygon_cv outer_flash) (moments polygon_cv inner_round) = PyTuple 11 10 \<and>
   defective exact_numpy ''Outer'' outer_flash (10, 10) ''center'' \<noteq>
     Some (spec_center (moments polygon_cv outer_flash) (moments polygon_cv inner_round))"
  by (simp add: run_flash traced_vals selected_vals moments_vals defective_fields as_tuple_def
      spec_center_val)

text \<open>
  Claim C1, as amended. In a Defective result the centre is obtained by truncation, not
  by rounding: each centroid coordinate \<open>m10 / m00\<close>, \<open>m01 / m00\<close> of the outer and of the
  inner contour is truncated towards zero by \<open>int\<close>, and each coordinate of the centre is
  the mean of the two truncated coordinates, truncated towards zero again. A Defective
  result is only returned when both \<open>m00\<close> are non-zero.
\<close>

theorem center_truncated_midpoint:
  assumes "find_and_analyze_ring cv np img = Inr r"
    and "r ''status'' = Some (PyStr ''Defective'')"
    and "take 2 (sorted_reverse (contourArea cv) (findContours cv (threshold cv img))) = [outer, inner]"
    and "m_outer = moments cv outer" and "m_inner = moments cv inner"
  shows "m00 m_outer \<noteq> 0 \<and> m00 m_inner \<noteq> 0 \<and>
         r ''center'' =
           Some (PyTuple
             (py_int (real_of_int (py_int (m10 m_outer / m00 m_outer) +
                                   py_int (m10 m_inner / m00 m_inner)) / 2))
             (py_int (real_of_int (py_int (m01 m_outer / m00 m_outer) +
                                   py_int (m01 m_inner / m00 m_inner)) / 2)))"
proof -
  have len: "2 \<le> length (findContours cv (threshold cv img))"
  proof (rule ccontr)
    assume "\<not> ?thesis"
    then have "find_and_analyze_ring cv np img = Inr (error ''Segmentation Failed'')"
      by (simp add: ring_short)
    with assms(1,2) show False by (auto simp: error_fields)
  qed
  have nz: "\<not> (m00 (moments cv outer) = 0 \<or> m00 (moments cv inner) = 0)"
  proof
    assume z: "m00 (moments cv outer) = 0 \<or> m00 (moments cv inner) = 0"
    from ring_moments_error [OF len assms(3) z] assms(1,2) show False
      by (auto simp: error_fields)
  qed
  then have "find_and_analyze_ring cv np img =
      scan np [(outer, ''Outer''), (inner, ''Inner'')] (registration_center m_outer m_inner)"
    using ring_scan [OF len assms(3)] assms(4,5) by simp
  with assms(1) have "scan np [(outer, ''Outer''), (inner, ''Inner'')]
      (registration_center m_outer m_inner) = Inr r" by simp
  from scan_result [OF this] assms(2) obtain contour name where
    "r = defective np name contour (registration_center m_outer m_inner)"
    by (auto simp: good_fields)
  then have "r ''center'' = Some (as_tuple (registration_center m_outer m_inner))"
    by (simp add: defective_fields)
  with nz assms(4,5) show ?thesis
    by (simp add: registration_center_def as_tuple_def)
qed

theorem center_truncated_midpoint_witness:
  "find_and_analyze_ring polygon_cv exact_numpy [inner_round, outer_flash] =
     Inr (defective exact_numpy ''Outer'' outer_flash (10, 10)) \<and>
   defective exact_numpy ''Outer'' outer_flash (10, 10) ''status'' = Some (PyStr ''Defective'') \<and>
   take 2 (sorted_reverse (contourArea polygon_cv)
     (findContours polygon_cv (threshold polygon_cv [inner_round, outer_flash]))) =
     [outer_flash, inner_round] \<and>
   defective exact_numpy ''Outer'' outer_flash (10, 10) ''center'' =
     Some (PyTuple (py_int (real_of_int (py_int (875 / 75) + py_int (80 / 8)) / 2))
                   (py_int (real_of_int (py_int (750 / 75) + py_int (80 / 8)) / 2)))"
proof -
  have a: "defective exact_numpy ''Outer'' outer_flash (10, 10) ''status'' = Some (PyStr ''Defective'')"
    by (simp add: defective_fields)
  have b: "take 2 (sorted_reverse (contourArea polygon_cv)
     (findContours polygon_cv (threshold polygon_cv [inner_round, outer_flash]))) =
     [outer_flash, inner_round]"
    by (simp add: traced_vals selected_vals)
  have c: "\<lparr>m00 = 75, m10 = 875, m01 = 750\<rparr> = moments polygon_cv outer_flash"
    by (simp add: traced_vals moments_vals)
  have d: "\<lparr>m00 = 8, m10 = 80, m01 = 80\<rparr> = moments polygon_cv inner_round"
    by (simp add: traced_vals moments_vals)
  from center_truncated_midpoint [OF run_flash a b c d] run_flash a b show ?thesis
    by simp
qed


text \<open>
  Claim C6. When the tracer finds fewer than two boundaries (none or one), the result is
  the Error result with the message \<open>Segmentation Failed\<close>, whatever else the image holds.
\<close>

theorem segmentation_failed:
  assumes "length (findContours cv (threshold cv img)) < 2"
  shows "find_and_analyze_ring cv np img =
         Inr [''status'' \<mapsto> PyStr ''Error'', ''defect_type'' \<mapsto> PyStr ''Segmentation Failed'']"
  using assms by (simp add: find_and_analyze_ring_def error_def)

theorem segmentation_failed_witness:
  "length (findContours polygon_cv (threshold polygon_cv [outer_flash])) < 2 \<and>
   find_and_analyze_ring polygon_cv exact_numpy [outer_flash] =
     Inr [''status'' \<mapsto> PyStr ''Error'', ''defect_type'' \<mapsto> PyStr ''Segmentation Failed'']"
proof -
  have h: "length (findContours polygon_cv (threshold polygon_cv [outer_flash])) < 2"
    by (simp add: traced_vals)
  from h segmentation_failed [OF h] show ?thesis by simp
qed

text \<open>
  Claim C7. When at least two boundaries are found and one of the two selected contours
  has a zero moment \<open>m00\<close> (zero enclosed area), the result is the Error result with the
  message \<open>Could not calculate moments\<close>. The result does not depend on the points of the
  contours, so no boundary is scanned.
\<close>

theorem moments_failed:
  assumes "2 \<le> length (findContours cv (threshold cv img))"
    and "take 2 (sorted_reverse (contourArea cv) (findContours cv (threshold cv img))) = [outer, inner]"
    and "m00 (moments cv outer) = 0 \<or> m00 (moments cv inner) = 0"
  shows "find_and_analyze_ring cv np img =
         Inr [''status'' \<mapsto> PyStr ''Error'',
              ''defect_type'' \<mapsto> PyStr ''Could not calculate moments'']"
  using ring_moments_error [OF assms] by (simp add: error_def)

theorem moments_failed_witness:
  "2 \<le> length (findContours polygon_cv (threshold polygon_cv [segment, outer_round])) \<and>
   take 2 (sorted_reverse (contourArea polygon_cv)
     (findContours polygon_cv (threshold polygon_cv [segment, outer_round]))) = [outer_round, segment] \<and>
   m00 (moments polygon_cv segment) = 0 \<and>
   find_and_analyze_ring polygon_cv exact_numpy [segment, outer_round] =
     Inr [''status'' \<mapsto> PyStr ''Error'',
          ''defect_type'' \<mapsto> PyStr ''Could not calculate moments'']"
proof -
  have a: "2 \<le> length (findContours polygon_cv (threshold polygon_cv [segment, outer_round]))"
    by (simp add: traced_vals)
  have b: "take 2 (sorted_reverse (contourArea polygon_cv)
     (findContours polygon_cv (threshold polygon_cv [segment, outer_round]))) = [outer_round, segment]"
    by (simp add: traced_vals selected_vals)
  have c: "m00 (moments polygon_cv segment) = 0"
    by (simp add: traced_vals moments_vals)
  then have c': "m00 (moments polygon_cv outer_round) = 0 \<or> m00 (moments polygon_cv segment) = 0"
    by simp
  from a b c moments_failed [OF a b c'] show ?thesis by simp
qed

text \<open>
  Claim C8. In every returned result, \<open>location\<close> is populated exactly when the status
  is Defective, and so is \<open>center\<close>; the status is one of Good, Error and Defective.
\<close>

theorem location_center_iff_defective:
  assumes "find_and_analyze_ring cv np img = Inr r"
  shows "(populated r ''location'' \<longleftrightarrow> r ''status'' = Some (PyStr ''Defective'')) \<and>
         (populated r ''center'' \<longleftrightarrow> r ''status'' = Some (PyStr ''Defective'')) \<and>
         (r ''status'' = Some (PyStr ''Good'') \<or> r ''status'' = Some (PyStr ''Error'') \<or>
          r ''status'' = Some (PyStr ''Defective''))"
proof -
  from ring_result [OF assms] consider
    msg where "r = error msg" | "r = good" | name contour c where "r = defective np name contour c"
    by auto
  then show ?thesis
  proof cases
    case 1
    then show ?thesis by (simp add: populated_def error_fields)
  next
    case 2
    then show ?thesis by (simp add: populated_def good_fields)
  next
    case 3
    then show ?thesis by (simp add: populated_def defective_fields as_tuple_def split: prod.split)
  qed
qed

theorem location_center_iff_defective_witness:
  "find_and_analyze_ring polygon_cv exact_numpy [inner_round, outer_flash] =
     Inr (defective exact_numpy ''Outer'' outer_flash (10, 10)) \<and>
   populated (defective exact_numpy ''Outer'' outer_flash (10, 10)) ''location'' \<and>
   populated (defective exact_numpy ''Outer'' outer_flash (10, 10)) ''center'' \<and>
   defective exact_numpy ''Outer'' outer_flash (10, 10) ''status'' = Some (PyStr ''Defective'')"
  using run_flash location_center_iff_defective [OF run_flash] by (simp add: defective_fields)


text \<open>
  Claim C2. When the outer boundary's \<open>max_jump\<close> exceeds the threshold, the returned
  \<open>defect_type\<close> is Cut if \<open>dev_radius < avg_radius\<close> on the outer boundary and Flash
  otherwise; when the outer boundary does not exceed it and the inner one does, the returned
  \<open>defect_type\<close> is Flash if \<open>dev_radius < avg_radius\<close> on the inner boundary and Cut
  otherwise. In both cases \<open>dev_radius\<close> is a radius of largest absolute deviation from
  \<open>avg_radius\<close>, the radii, their mean and the deviations being the floats that numpy
  computes: the statement holds for any rounding of \<open>np.sqrt\<close>, \<open>np.mean\<close> and the
  subtraction.
\<close>

theorem defect_type_by_dev_radius:
  assumes "2 \<le> length (findContours cv (threshold cv img))"
    and "take 2 (sorted_reverse (contourArea cv) (findContours cv (threshold cv img))) = [outer, inner]"
    and "m00 (moments cv outer) \<noteq> 0" and "m00 (moments cv inner) \<noteq> 0"
    and "c = registration_center (moments cv outer) (moments cv inner)"
    and "outer \<noteq> []"
  shows "(JUMP_THRESHOLD < max_jump np outer c \<longrightarrow>
            find_and_analyze_ring cv np img = Inr (defective np ''Outer'' outer c) \<and>
            defective np ''Outer'' outer c ''defect_type'' =
              Some (PyStr (if dev_radius np outer c < avg_radius np outer c then ''Cut'' else ''Flash'')) \<and>
            (\<forall>k<length outer. \<bar>np_subtract np (radii np outer c ! k) (avg_radius np outer c)\<bar>
                 \<le> \<bar>np_subtract np (dev_radius np outer c) (avg_radius np outer c)\<bar>)) \<and>
         (\<not> JUMP_THRESHOLD < max_jump np outer c \<and> inner \<noteq> [] \<and>
          JUMP_THRESHOLD < max_jump np inner c \<longrightarrow>
            find_and_analyze_ring cv np img = Inr (defective np ''Inner'' inner c) \<and>
            defective np ''Inner'' inner c ''defect_type'' =
              Some (PyStr (if dev_radius np inner c < avg_radius np inner c then ''Flash'' else ''Cut'')) \<and>
            (\<forall>k<length inner. \<bar>np_subtract np (radii np inner c ! k) (avg_radius np inner c)\<bar>
                 \<le> \<bar>np_subtract np (dev_radius np inner c) (avg_radius np inner c)\<bar>))"
proof (intro conjI impI)
  assume "JUMP_THRESHOLD < max_jump np outer c"
  then show "find_and_analyze_ring cv np img = Inr (defective np ''Outer'' outer c)"
    using ring_scan_outer [OF assms] by simp
next
  show "defective np ''Outer'' outer c ''defect_type'' =
      Some (PyStr (if dev_radius np outer c < avg_radius np outer c then ''Cut'' else ''Flash''))"
    by (simp only: defective_fields classify_outer)
next
  show "\<forall>k<length outer. \<bar>np_subtract np (radii np outer c ! k) (avg_radius np outer c)\<bar>
                 \<le> \<bar>np_subtract np (dev_radius np outer c) (avg_radius np outer c)\<bar>"
    using deviation_idx_spec [OF assms(6), of np c] by blast
next
  assume "\<not> JUMP_THRESHOLD < max_jump np outer c \<and> inner \<noteq> [] \<and> JUMP_THRESHOLD < max_jump np inner c"
  then show "find_and_analyze_ring cv np img = Inr (defective np ''Inner'' inner c)"
    using ring_scan_inner [OF assms] by simp
next
  show "defective np ''Inner'' inner c ''defect_type'' =
      Some (PyStr (if dev_radius np inner c < avg_radius np inner c then ''Flash'' else ''Cut''))"
    by (simp only: defective_fields classify_inner)
next
  assume "\<not> JUMP_THRESHOLD < max_jump np outer c \<and> inner \<noteq> [] \<and> JUMP_THRESHOLD < max_jump np inner c"
  then have "inner \<noteq> []" by simp
  from deviation_idx_spec [OF this, of np c]
  show "\<forall>k<length inner. \<bar>np_subtract np (radii np inner c ! k) (avg_radius np inner c)\<bar>
                 \<le> \<bar>np_subtract np (dev_radius np inner c) (avg_radius np inner c)\<bar>"
    by blast
qed

theorem defect_type_by_dev_radius_witness:
  "2 \<le> length (findContours polygon_cv (threshold polygon_cv [outer_cut, inner_round])) \<and>
   take 2 (sorted_reverse (contourArea polygon_cv)
     (findContours polygon_cv (threshold polygon_cv [outer_cut, inner_round]))) =
     [outer_cut, inner_round] \<and>
   m00 (moments polygon_cv outer_cut) \<noteq> 0 \<and> m00 (moments polygon_cv inner_round) \<noteq> 0 \<and>
   (10, 10) = registration_center (moments polygon_cv outer_cut) (moments polygon_cv inner_round) \<and>
   outer_cut \<noteq> [] \<and> JUMP_THRESHOLD < max_jump exact_numpy outer_cut (10, 10) \<and>
   dev_radius exact_numpy outer_cut (10, 10) < avg_radius exact_numpy outer_cut (10, 10) \<and>
   find_and_analyze_ring polygon_cv exact_numpy [outer_cut, inner_round] =
     Inr (defective exact_numpy ''Outer'' outer_cut (10, 10)) \<and>
   defective exact_numpy ''Outer'' outer_cut (10, 10) ''defect_type'' = Some (PyStr ''Cut'') \<and>
   2 \<le> length (findContours polygon_cv (threshold polygon_cv [outer_round, inner_flash])) \<and>
   take 2 (sorted_reverse (contourArea polygon_cv)
     (findContours polygon_cv (threshold polygon_cv [outer_round, inner_flash]))) =
     [outer_round, inner_flash] \<and>
   m00 (moments polygon_cv outer_round) \<noteq> 0 \<and> m00 (moments polygon_cv inner_flash) \<noteq> 0 \<and>
   (10, 10) = registration_center (moments polygon_cv outer_round) (moments polygon_cv inner_flash) \<and>
   outer_round \<noteq> [] \<and> \<not> JUMP_THRESHOLD < max_jump exact_numpy outer_round (10, 10) \<and>
   inner_flash \<noteq> [] \<and> JUMP_THRESHOLD < max_jump exact_numpy inner_flash (10, 10) \<and>
   dev_radius exact_numpy inner_flash (10, 10) < avg_radius exact_numpy inner_flash (10, 10) \<and>
   find_and_analyze_ring polygon_cv exact_numpy [outer_round, inner_flash] =
     Inr (defective exact_numpy ''Inner'' inner_flash (10, 10)) \<and>
   defective exact_numpy ''Inner'' inner_flash (10, 10) ''defect_type'' = Some (PyStr ''Flash'')"
proof -
  have a1: "2 \<le> length (findContours polygon_cv (threshold polygon_cv [outer_cut, inner_round]))"
    by (simp add: traced_vals)
  have a2: "take 2 (sorted_reverse (contourArea polygon_cv)
     (findContours polygon_cv (threshold polygon_cv [outer_cut, inner_round]))) =
     [outer_cut, inner_round]"
    by (simp add: traced_vals selected_vals)
  have a3: "m00 (moments polygon_cv outer_cut) \<noteq> 0" by (simp add: traced_vals moments_vals)
  have a4: "m00 (moments polygon_cv inner_round) \<noteq> 0" by (simp add: traced_vals moments_vals)
  have a5: "(10, 10) = registration_center (moments polygon_cv outer_cut) (moments polygon_cv inner_round)"
    by (simp add: traced_vals moments_vals center_vals)
  have a6: "outer_cut \<noteq> []" by (rule nonempty_vals)
  have a7: "JUMP_THRESHOLD < max_jump exact_numpy outer_cut (10, 10)"
    by (simp add: max_jump_vals JUMP_THRESHOLD_def)
  have a8: "dev_radius exact_numpy outer_cut (10, 10) < avg_radius exact_numpy outer_cut (10, 10)"
    by (simp add: dev_radius_vals avg_vals)
  have b1: "2 \<le> length (findContours polygon_cv (threshold polygon_cv [outer_round, inner_flash]))"
    by (simp add: traced_vals)
  have b2: "take 2 (sorted_reverse (contourArea polygon_cv)
     (findContours polygon_cv (threshold polygon_cv [outer_round, inner_flash]))) =
     [outer_round, inner_flash]"
    by (simp add: traced_vals selected_vals)
  have b3: "m00 (moments polygon_cv outer_round) \<noteq> 0" by (simp add: traced_vals moments_vals)
  have b4: "m00 (moments polygon_cv inner_flash) \<noteq> 0" by (simp add: traced_vals moments_vals)
  have b5: "(10, 10) = registration_center (moments polygon_cv outer_round) (moments polygon_cv inner_flash)"
    by (simp add: traced_vals moments_vals center_vals)
  have b6: "outer_round \<noteq> []" by (rule nonempty_vals)
  have b7: "\<not> JUMP_THRESHOLD < max_jump exact_numpy outer_round (10, 10)"
    by (simp add: max_jump_vals JUMP_THRESHOLD_def)
  have b8: "inner_flash \<noteq> []" by (rule nonempty_vals)
  have b9: "JUMP_THRESHOLD < max_jump exact_numpy inner_flash (10, 10)"
    by (simp add: max_jump_vals JUMP_THRESHOLD_def)
  have b10: "dev_radius exact_numpy inner_flash (10, 10) < avg_radius exact_numpy inner_flash (10, 10)"
    by (simp add: dev_radius_vals avg_vals)
  from defect_type_by_dev_radius [OF a1 a2 a3 a4 a5 a6] a7 a8
  have A: "find_and_analyze_ring polygon_cv exact_numpy [outer_cut, inner_round] =
     Inr (defective exact_numpy ''Outer'' outer_cut (10, 10)) \<and>
     defective exact_numpy ''Outer'' outer_cut (10, 10) ''defect_type'' = Some (PyStr ''Cut'')"
    by simp
  from defect_type_by_dev_radius [OF b1 b2 b3 b4 b5 b6] b7 b8 b9 b10
  have B: "find_and_analyze_ring polygon_cv exact_numpy [outer_round, inner_flash] =
     Inr (defective exact_numpy ''Inner'' inner_flash (10, 10)) \<and>
     defective exact_numpy ''Inner'' inner_flash (10, 10) ''defect_type'' = Some (PyStr ''Flash'')"
    by simp
  from a1 a2 a3 a4 a5 a6 a7 a8 A b1 b2 b3 b4 b5 b6 b7 b8 b9 b10 B show ?thesis
    by (intro conjI) blast+
qed


text \<open>
  Claim C3. The loop takes the outer boundary first and returns at the first boundary above
  the threshold. When the outer boundary's \<open>max_jump\<close> exceeds the threshold, the result is
  the Defective result of the outer boundary, with its \<open>defect_type\<close> and \<open>location\<close>,
  whatever the inner boundary is, in particular when the inner boundary exceeds the
  threshold too; the result equals that of the loop run over the outer boundary alone, so
  the inner boundary is not evaluated.
\<close>

theorem outer_before_inner:
  assumes "2 \<le> length (findContours cv (threshold cv img))"
    and "take 2 (sorted_reverse (contourArea cv) (findContours cv (threshold cv img))) = [outer, inner]"
    and "m00 (moments cv outer) \<noteq> 0" and "m00 (moments cv inner) \<noteq> 0"
    and "c = registration_center (moments cv outer) (moments cv inner)"
    and "outer \<noteq> []"
    and "JUMP_THRESHOLD < max_jump np outer c"
  shows "find_and_analyze_ring cv np img = Inr (defective np ''Outer'' outer c) \<and>
         defective np ''Outer'' outer c ''status'' = Some (PyStr ''Defective'') \<and>
         defective np ''Outer'' outer c ''defect_type'' =
           Some (PyStr (if dev_radius np outer c < avg_radius np outer c then ''Cut'' else ''Flash'')) \<and>
         defective np ''Outer'' outer c ''location'' = Some (as_tuple (outer ! defect_idx np outer c)) \<and>
         find_and_analyze_ring cv np img = scan np [(outer, ''Outer'')] c"
proof (intro conjI)
  show "find_and_analyze_ring cv np img = Inr (defective np ''Outer'' outer c)"
    by (rule ring_scan_outer [OF assms])
  then show "find_and_analyze_ring cv np img = scan np [(outer, ''Outer'')] c"
    using scan_first [OF assms(6,7), of "''Outer''" "[]"] by simp
  show "defective np ''Outer'' outer c ''defect_type'' =
      Some (PyStr (if dev_radius np outer c < avg_radius np outer c then ''Cut'' else ''Flash''))"
    by (simp only: defective_fields classify_outer)
qed (simp_all only: defective_fields)

theorem outer_before_inner_witness:
  "2 \<le> length (findContours polygon_cv (threshold polygon_cv [inner_flash, outer_flash])) \<and>
   take 2 (sorted_reverse (contourArea polygon_cv)
     (findContours polygon_cv (threshold polygon_cv [inner_flash, outer_flash]))) =
     [outer_flash, inner_flash] \<and>
   m00 (moments polygon_cv outer_flash) \<noteq> 0 \<and> m00 (moments polygon_cv inner_flash) \<noteq> 0 \<and>
   (10, 10) = registration_center (moments polygon_cv outer_flash) (moments polygon_cv inner_flash) \<and>
   outer_flash \<noteq> [] \<and> JUMP_THRESHOLD < max_jump exact_numpy outer_flash (10, 10) \<and>
   JUMP_THRESHOLD < max_jump exact_numpy inner_flash (10, 10) \<and>
   find_and_analyze_ring polygon_cv exact_numpy [inner_flash, outer_flash] =
     Inr (defective exact_numpy ''Outer'' outer_flash (10, 10)) \<and>
   defective exact_numpy ''Outer'' outer_flash (10, 10) ''defect_type'' = Some (PyStr ''Flash'') \<and>
   defective exact_numpy ''Outer'' outer_flash (10, 10) ''location'' = Some (PyTuple 20 10) \<and>
   defective exact_numpy ''Inner'' inner_flash (10, 10) ''location'' = Some (PyTuple 14 10)"
proof -
  have a1: "2 \<le> length (findContours polygon_cv (threshold polygon_cv [inner_flash, outer_flash]))"
    by (simp add: traced_vals)
  have a2: "take 2 (sorted_reverse (contourArea polygon_cv)
     (findContours polygon_cv (threshold polygon_cv [inner_flash, outer_flash]))) =
     [outer_flash, inner_flash]"
    by (simp add: traced_vals selected_vals)
  have a3: "m00 (moments polygon_cv outer_flash) \<noteq> 0" by (simp add: traced_vals moments_vals)
  have a4: "m00 (moments polygon_cv inner_flash) \<noteq> 0" by (simp add: traced_vals moments_vals)
  have a5: "(10, 10) = registration_center (moments polygon_cv outer_flash) (moments polygon_cv inner_flash)"
    by (simp add: traced_vals moments_vals center_vals)
  have a6: "outer_flash \<noteq> []" by (rule nonempty_vals)
  have a7: "JUMP_THRESHOLD < max_jump exact_numpy outer_flash (10, 10)"
    by (simp add: max_jump_vals JUMP_THRESHOLD_def)
  have a8: "JUMP_THRESHOLD < max_jump exact_numpy inner_flash (10, 10)"
    by (simp add: max_jump_vals JUMP_THRESHOLD_def)
  have a9: "\<not> dev_radius exact_numpy outer_flash (10, 10) < avg_radius exact_numpy outer_flash (10, 10)"
    by (simp add: dev_radius_vals avg_vals)
  have a10: "as_tuple (outer_flash ! defect_idx exact_numpy outer_flash (10, 10)) = PyTuple 20 10"
    by (simp add: defect_idx_vals point_vals as_tuple_def)
  have a11: "defective exact_numpy ''Inner'' inner_flash (10, 10) ''location'' = Some (PyTuple 14 10)"
    by (simp add: defective_fields defect_idx_vals point_vals as_tuple_def)
  from outer_before_inner [OF a1 a2 a3 a4 a5 a6 a7] a9 a10
  have A: "find_and_analyze_ring polygon_cv exact_numpy [inner_flash, outer_flash] =
     Inr (defective exact_numpy ''Outer'' outer_flash (10, 10)) \<and>
     defective exact_numpy ''Outer'' outer_flash (10, 10) ''defect_type'' = Some (PyStr ''Flash'') \<and>
     defective exact_numpy ''Outer'' outer_flash (10, 10) ''location'' = Some (PyTuple 20 10)"
    by simp
  from a1 a2 a3 a4 a5 a6 a7 a8 a11 A show ?thesis
    by (intro conjI) blast+
qed

text \<open>
  Claim C5. The threshold is \<open>2.5\<close>, and \<open>max_jump\<close> is the maximum of the circular first
  differences of the radii. A boundary whose \<open>max_jump\<close> is at most \<open>2.5\<close> gives no
  Defective result: the loop goes on to the next boundary, and returns Good after the last.
  A boundary gives the Defective result exactly when its \<open>max_jump\<close> is strictly greater
  than \<open>2.5\<close> (and no earlier boundary did).
\<close>

theorem threshold_decides:
  assumes "2 \<le> length (findContours cv (threshold cv img))"
    and "take 2 (sorted_reverse (contourArea cv) (findContours cv (threshold cv img))) = [outer, inner]"
    and "m00 (moments cv outer) \<noteq> 0" and "m00 (moments cv inner) \<noteq> 0"
    and "c = registration_center (moments cv outer) (moments cv inner)"
    and "outer \<noteq> []" and "inner \<noteq> []"
  shows "(5 / 2 < max_jump np outer c \<longrightarrow>
            find_and_analyze_ring cv np img = Inr (defective np ''Outer'' outer c)) \<and>
         (max_jump np outer c \<le> 5 / 2 \<and> 5 / 2 < max_jump np inner c \<longrightarrow>
            find_and_analyze_ring cv np img = Inr (defective np ''Inner'' inner c)) \<and>
         (max_jump np outer c \<le> 5 / 2 \<and> max_jump np inner c \<le> 5 / 2 \<longrightarrow>
            find_and_analyze_ring cv np img = Inr good) \<and>
         (\<exists>r. find_and_analyze_ring cv np img = Inr r \<and>
            (r ''status'' = Some (PyStr ''Defective'') \<longleftrightarrow>
               5 / 2 < max_jump np outer c \<or> 5 / 2 < max_jump np inner c) \<and>
            (r ''status'' = Some (PyStr ''Good'') \<longleftrightarrow>
               max_jump np outer c \<le> 5 / 2 \<and> max_jump np inner c \<le> 5 / 2)) \<and>
         JUMP_THRESHOLD = 5 / 2 \<and>
         (\<forall>b name rest. b \<noteq> [] \<longrightarrow>
            scan np ((b, name) # rest) c =
              (if 5 / 2 < max_jump np b c then Inr (defective np name b c) else scan np rest c)) \<and>
         (\<exists>k<length outer. diffs np outer c ! k = max_jump np outer c) \<and>
         (\<forall>k<length outer. diffs np outer c ! k \<le> max_jump np outer c \<and>
            diffs np outer c ! k =
              \<bar>np_subtract np (radii np outer c ! k) (radii np outer c ! (if k = 0 then length outer - 1 else k - 1))\<bar>) \<and>
         (\<exists>k<length inner. diffs np inner c ! k = max_jump np inner c) \<and>
         (\<forall>k<length inner. diffs np inner c ! k \<le> max_jump np inner c \<and>
            diffs np inner c ! k =
              \<bar>np_subtract np (radii np inner c ! k) (radii np inner c ! (if k = 0 then length inner - 1 else k - 1))\<bar>)"
proof -
  have o: "5 / 2 < max_jump np outer c \<Longrightarrow>
      find_and_analyze_ring cv np img = Inr (defective np ''Outer'' outer c)"
    using ring_scan_outer [OF assms(1-6)] by (simp add: JUMP_THRESHOLD_def)
  have i: "max_jump np outer c \<le> 5 / 2 \<Longrightarrow> 5 / 2 < max_jump np inner c \<Longrightarrow>
      find_and_analyze_ring cv np img = Inr (defective np ''Inner'' inner c)"
    using ring_scan_inner [OF assms(1-6) _ assms(7)] by (simp add: JUMP_THRESHOLD_def)
  have g: "max_jump np outer c \<le> 5 / 2 \<Longrightarrow> max_jump np inner c \<le> 5 / 2 \<Longrightarrow>
      find_and_analyze_ring cv np img = Inr good"
    using ring_scan_good [OF assms(1-6) _ assms(7)] by (simp add: JUMP_THRESHOLD_def)
  have ex: "\<exists>r. find_and_analyze_ring cv np img = Inr r \<and>
            (r ''status'' = Some (PyStr ''Defective'') \<longleftrightarrow>
               5 / 2 < max_jump np outer c \<or> 5 / 2 < max_jump np inner c) \<and>
            (r ''status'' = Some (PyStr ''Good'') \<longleftrightarrow>
               max_jump np outer c \<le> 5 / 2 \<and> max_jump np inner c \<le> 5 / 2)"
  proof (cases "5 / 2 < max_jump np outer c")
    case True
    with o show ?thesis by (simp add: defective_fields)
  next
    case False
    note no = this
    show ?thesis
    proof (cases "5 / 2 < max_jump np inner c")
      case True
      with no i show ?thesis by (simp add: defective_fields)
    next
      case False
      with no g show ?thesis by (simp add: good_fields)
    qed
  qed
  have thr: "JUMP_THRESHOLD = 5 / 2" by (simp add: JUMP_THRESHOLD_def)
  have st: "\<forall>b name rest. b \<noteq> [] \<longrightarrow>
            scan np ((b, name) # rest) c =
              (if 5 / 2 < max_jump np b c then Inr (defective np name b c) else scan np rest c)"
    using scan_step by blast
  have mo: "(\<exists>k<length outer. diffs np outer c ! k = max_jump np outer c) \<and>
         (\<forall>k<length outer. diffs np outer c ! k \<le> max_jump np outer c \<and>
            diffs np outer c ! k =
              \<bar>np_subtract np (radii np outer c ! k) (radii np outer c ! (if k = 0 then length outer - 1 else k - 1))\<bar>)"
    by (rule max_jump_spec [OF assms(6)])
  have mi: "(\<exists>k<length inner. diffs np inner c ! k = max_jump np inner c) \<and>
         (\<forall>k<length inner. diffs np inner c ! k \<le> max_jump np inner c \<and>
            diffs np inner c ! k =
              \<bar>np_subtract np (radii np inner c ! k) (radii np inner c ! (if k = 0 then length inner - 1 else k - 1))\<bar>)"
    by (rule max_jump_spec [OF assms(7)])
  have oig: "(5 / 2 < max_jump np outer c \<longrightarrow>
            find_and_analyze_ring cv np img = Inr (defective np ''Outer'' outer c)) \<and>
         (max_jump np outer c \<le> 5 / 2 \<and> 5 / 2 < max_jump np inner c \<longrightarrow>
            find_and_analyze_ring cv np img = Inr (defective np ''Inner'' inner c)) \<and>
         (max_jump np outer c \<le> 5 / 2 \<and> max_jump np inner c \<le> 5 / 2 \<longrightarrow>
            find_and_analyze_ring cv np img = Inr good)"
    using o i g by blast
  from oig ex thr st mo mi show ?thesis by (intro conjI) (erule conjunct1 conjunct2 | assumption | blast)+
qed


theorem threshold_decides_witness:
  "2 \<le> length (findContours polygon_cv (threshold polygon_cv [outer_round, inner_round])) \<and>
   take 2 (sorted_reverse (contourArea polygon_cv)
     (findContours polygon_cv (threshold polygon_cv [outer_round, inner_round]))) =
     [outer_round, inner_round] \<and>
   m00 (moments polygon_cv outer_round) \<noteq> 0 \<and> m00 (moments polygon_cv inner_round) \<noteq> 0 \<and>
   (10, 10) = registration_center (moments polygon_cv outer_round) (moments polygon_cv inner_round) \<and>
   outer_round \<noteq> [] \<and> inner_round \<noteq> [] \<and>
   max_jump exact_numpy outer_round (10, 10) \<le> 5 / 2 \<and> max_jump exact_numpy inner_round (10, 10) \<le> 5 / 2 \<and>
   find_and_analyze_ring polygon_cv exact_numpy [outer_round, inner_round] = Inr good \<and>
   2 \<le> length (findContours polygon_cv (threshold polygon_cv [inner_round, outer_flash])) \<and>
   take 2 (sorted_reverse (contourArea polygon_cv)
     (findContours polygon_cv (threshold polygon_cv [inner_round, outer_flash]))) =
     [outer_flash, inner_round] \<and>
   m00 (moments polygon_cv outer_flash) \<noteq> 0 \<and>
   (10, 10) = registration_center (moments polygon_cv outer_flash) (moments polygon_cv inner_round) \<and>
   outer_flash \<noteq> [] \<and> 5 / 2 < max_jump exact_numpy outer_flash (10, 10) \<and>
   find_and_analyze_ring polygon_cv exact_numpy [inner_round, outer_flash] =
     Inr (defective exact_numpy ''Outer'' outer_flash (10, 10))"
proof -
  have a1: "2 \<le> length (findContours polygon_cv (threshold polygon_cv [outer_round, inner_round]))"
    by (simp add: traced_vals)
  have a2: "take 2 (sorted_reverse (contourArea polygon_cv)
     (findContours polygon_cv (threshold polygon_cv [outer_round, inner_round]))) =
     [outer_round, inner_round]"
    by (simp add: traced_vals selected_vals)
  have a3: "m00 (moments polygon_cv outer_round) \<noteq> 0" by (simp add: traced_vals moments_vals)
  have a4: "m00 (moments polygon_cv inner_round) \<noteq> 0" by (simp add: traced_vals moments_vals)
  have a5: "(10, 10) = registration_center (moments polygon_cv outer_round) (moments polygon_cv inner_round)"
    by (simp add: traced_vals moments_vals center_vals)
  have a6: "outer_round \<noteq> []" by (rule nonempty_vals)
  have a7: "inner_round \<noteq> []" by (rule nonempty_vals)
  have a8: "max_jump exact_numpy outer_round (10, 10) \<le> 5 / 2" by (simp add: max_jump_vals)
  have a9: "max_jump exact_numpy inner_round (10, 10) \<le> 5 / 2" by (simp add: max_jump_vals)
  have b1: "2 \<le> length (findContours polygon_cv (threshold polygon_cv [inner_round, outer_flash]))"
    by (simp add: traced_vals)
  have b2: "take 2 (sorted_reverse (contourArea polygon_cv)
     (findContours polygon_cv (threshold polygon_cv [inner_round, outer_flash]))) =
     [outer_flash, inner_round]"
    by (simp add: traced_vals selected_vals)
  have b3: "m00 (moments polygon_cv outer_flash) \<noteq> 0" by (simp add: traced_vals moments_vals)
  have b5: "(10, 10) = registration_center (moments polygon_cv outer_flash) (moments polygon_cv inner_round)"
    by (simp add: traced_vals moments_vals center_vals)
  have b6: "outer_flash \<noteq> []" by (rule nonempty_vals)
  have b8: "5 / 2 < max_jump exact_numpy outer_flash (10, 10)" by (simp add: max_jump_vals)
  from threshold_decides [OF a1 a2 a3 a4 a5 a6 a7] a8 a9
  have A: "find_and_analyze_ring polygon_cv exact_numpy [outer_round, inner_round] = Inr good"
    by blast
  from threshold_decides [OF b1 b2 b3 a4 b5 b6 a7] b8
  have B: "find_and_analyze_ring polygon_cv exact_numpy [inner_round, outer_flash] =
     Inr (defective exact_numpy ''Outer'' outer_flash (10, 10))"
    by blast
  from a1 a2 a3 a4 a5 a6 a7 a8 a9 A b1 b2 b3 b5 b6 b8 B show ?thesis
    by (intro conjI) blast+
qed

text \<open>
  Claim C4. In every Defective result, \<open>location\<close> is the point of the reporting contour
  at \<open>defect_idx\<close>, the index returned by \<open>argmax\<close> on the circular first differences,
  where the difference is the largest; the differences are the floats that numpy computes,
  for any rounding of \<open>np.sqrt\<close> and of the subtraction. The index of largest deviation
  from the mean radius is computed separately and may differ: for the ring of \<open>outer_skew\<close>
  and \<open>inner_round\<close>, on which no operation rounds, the two indices and the two points
  differ.
\<close>

theorem location_at_jump_index:
  assumes "find_and_analyze_ring cv np img = Inr r"
    and "r ''status'' = Some (PyStr ''Defective'')"
    and "take 2 (sorted_reverse (contourArea cv) (findContours cv (threshold cv img))) = [outer, inner]"
    and "c = registration_center (moments cv outer) (moments cv inner)"
    and "b = (if JUMP_THRESHOLD < max_jump np outer c then outer else inner)"
  shows "defect_idx np b c < length b \<and>
         r ''location'' = Some (as_tuple (b ! defect_idx np b c)) \<and>
         defect_idx np b c = np_argmax (diffs np b c) \<and>
         diffs np b c ! defect_idx np b c = max_jump np b c \<and>
         (\<forall>k<length b. diffs np b c ! k \<le> diffs np b c ! defect_idx np b c) \<and>
         (\<exists>img' outer' inner' c'.
            find_and_analyze_ring polygon_cv exact_numpy img' = Inr (defective exact_numpy ''Outer'' outer' c') \<and>
            defective exact_numpy ''Outer'' outer' c' ''location'' = Some (as_tuple (outer' ! defect_idx exact_numpy outer' c')) \<and>
            defect_idx exact_numpy outer' c' \<noteq> deviation_idx exact_numpy outer' c' \<and>
            outer' ! defect_idx exact_numpy outer' c' \<noteq> outer' ! deviation_idx exact_numpy outer' c')"
proof -
  have len: "2 \<le> length (findContours cv (threshold cv img))"
  proof (rule ccontr)
    assume "\<not> ?thesis"
    then have "find_and_analyze_ring cv np img = Inr (error ''Segmentation Failed'')"
      by (simp add: ring_short)
    with assms(1,2) show False by (auto simp: error_fields)
  qed
  have nz: "\<not> (m00 (moments cv outer) = 0 \<or> m00 (moments cv inner) = 0)"
  proof
    assume z: "m00 (moments cv outer) = 0 \<or> m00 (moments cv inner) = 0"
    from ring_moments_error [OF len assms(3) z] assms(1,2) show False
      by (auto simp: error_fields)
  qed
  then have run: "scan np [(outer, ''Outer''), (inner, ''Inner'')] c = Inr r"
    using ring_scan [OF len assms(3)] assms(1,4) by simp
  have o: "outer \<noteq> []"
  proof
    assume "outer = []"
    then have "diffs np outer c = []" by (simp add: diffs_empty_iff)
    with run show False by simp
  qed
  have "b \<noteq> [] \<and> (\<exists>name. r = defective np name b c)"
  proof (cases "JUMP_THRESHOLD < max_jump np outer c")
    case True
    with run o assms(5) show ?thesis by (auto simp: diffs_empty_iff)
  next
    case False
    with run o have run': "scan np [(inner, ''Inner'')] c = Inr r" by (simp add: diffs_empty_iff)
    from scan_result [OF run'] assms(2) have "inner \<noteq> [] \<and> r = defective np ''Inner'' inner c"
      by (auto simp: good_fields)
    with False assms(5) show ?thesis by auto
  qed
  then obtain name where b: "b \<noteq> []" and r: "r = defective np name b c" by blast
  have ex: "\<exists>img' outer' inner' c'.
            find_and_analyze_ring polygon_cv exact_numpy img' = Inr (defective exact_numpy ''Outer'' outer' c') \<and>
            defective exact_numpy ''Outer'' outer' c' ''location'' = Some (as_tuple (outer' ! defect_idx exact_numpy outer' c')) \<and>
            defect_idx exact_numpy outer' c' \<noteq> deviation_idx exact_numpy outer' c' \<and>
            outer' ! defect_idx exact_numpy outer' c' \<noteq> outer' ! deviation_idx exact_numpy outer' c'"
  proof (intro exI conjI)
    show "find_and_analyze_ring polygon_cv exact_numpy [inner_round, outer_skew] =
        Inr (defective exact_numpy ''Outer'' outer_skew (10, 10))"
      by (rule run_skew)
    show "defective exact_numpy ''Outer'' outer_skew (10, 10) ''location'' =
        Some (as_tuple (outer_skew ! defect_idx exact_numpy outer_skew (10, 10)))"
      by (simp only: defective_fields)
    show "defect_idx exact_numpy outer_skew (10, 10) \<noteq> deviation_idx exact_numpy outer_skew (10, 10)"
      by (simp add: defect_idx_vals deviation_idx_vals)
    show "outer_skew ! defect_idx exact_numpy outer_skew (10, 10) \<noteq> outer_skew ! deviation_idx exact_numpy outer_skew (10, 10)"
      unfolding defect_idx_vals deviation_idx_vals by (simp add: outer_skew_def)
  qed
  from defect_idx_spec [OF b, of np c] r ex show ?thesis
    by (simp add: defective_fields defect_idx_def)
qed

theorem location_at_jump_index_witness:
  "find_and_analyze_ring polygon_cv exact_numpy [inner_round, outer_skew] =
     Inr (defective exact_numpy ''Outer'' outer_skew (10, 10)) \<and>
   defective exact_numpy ''Outer'' outer_skew (10, 10) ''status'' = Some (PyStr ''Defective'') \<and>
   take 2 (sorted_reverse (contourArea polygon_cv)
     (findContours polygon_cv (threshold polygon_cv [inner_round, outer_skew]))) =
     [outer_skew, inner_round] \<and>
   (10, 10) = registration_center (moments polygon_cv outer_skew) (moments polygon_cv inner_round) \<and>
   outer_skew = (if JUMP_THRESHOLD < max_jump exact_numpy outer_skew (10, 10) then outer_skew else inner_round) \<and>
   defect_idx exact_numpy outer_skew (10, 10) = 2 \<and> deviation_idx exact_numpy outer_skew (10, 10) = 1 \<and>
   defective exact_numpy ''Outer'' outer_skew (10, 10) ''location'' = Some (PyTuple 5 10) \<and>
   as_tuple (outer_skew ! deviation_idx exact_numpy outer_skew (10, 10)) = PyTuple 10 20"
proof -
  have a2: "defective exact_numpy ''Outer'' outer_skew (10, 10) ''status'' = Some (PyStr ''Defective'')"
    by (simp only: defective_fields)
  have a3: "take 2 (sorted_reverse (contourArea polygon_cv)
     (findContours polygon_cv (threshold polygon_cv [inner_round, outer_skew]))) =
     [outer_skew, inner_round]"
    by (simp add: traced_vals selected_vals)
  have a4: "(10, 10) = registration_center (moments polygon_cv outer_skew) (moments polygon_cv inner_round)"
    by (simp add: traced_vals moments_vals center_vals)
  have a5: "outer_skew = (if JUMP_THRESHOLD < max_jump exact_numpy outer_skew (10, 10) then outer_skew else inner_round)"
    by (simp add: max_jump_vals JUMP_THRESHOLD_def)
  have a6: "defect_idx exact_numpy outer_skew (10, 10) = 2" by (rule defect_idx_vals)
  have a7: "deviation_idx exact_numpy outer_skew (10, 10) = 1" by (rule deviation_idx_vals)
  have a8: "as_tuple (outer_skew ! 2) = PyTuple 5 10" by (simp add: point_vals as_tuple_def)
  have a9: "as_tuple (outer_skew ! deviation_idx exact_numpy outer_skew (10, 10)) = PyTuple 10 20"
    unfolding a7 by (simp add: outer_skew_def as_tuple_def)
  from location_at_jump_index [OF run_skew a2 a3 a4 a5] a6 a8
  have A: "defective exact_numpy ''Outer'' outer_skew (10, 10) ''location'' = Some (PyTuple 5 10)"
    by simp
  from run_skew a2 a3 a4 a5 a6 a7 a9 A show ?thesis
    by (intro conjI) blast+
qed


text \<open>
  Claim C10. For a non-empty contour, \<open>defect_idx\<close> is the smallest index at which the
  circular first difference equals \<open>max_jump\<close> (every earlier difference is strictly
  smaller), and \<open>dev_radius\<close> is the radius at \<open>deviation_idx\<close>, the smallest index of
  largest absolute deviation from \<open>avg_radius\<close>. The reported \<open>location\<close> is the point at
  \<open>defect_idx\<close> and the \<open>defect_type\<close> is decided by \<open>dev_radius\<close>, so both are determined
  under ties. The ties are those of the floats that numpy computes: the statement holds for
  any rounding of \<open>np.sqrt\<close>, \<open>np.mean\<close> and the subtraction. On \<open>outer_oval\<close>, where no
  operation rounds, all four differences tie and all four deviations tie, a radius above the
  mean with one below it; index 0 is taken for both, which gives Flash.
\<close>

theorem first_maximal_index:
  assumes "contour \<noteq> []"
  shows "defect_idx np contour c < length contour \<and>
         diffs np contour c ! defect_idx np contour c = max_jump np contour c \<and>
         (\<forall>k<length contour. diffs np contour c ! k \<le> max_jump np contour c) \<and>
         (\<forall>k<defect_idx np contour c. diffs np contour c ! k < max_jump np contour c) \<and>
         deviation_idx np contour c < length contour \<and>
         dev_radius np contour c = radii np contour c ! deviation_idx np contour c \<and>
         (\<forall>k<length contour. \<bar>np_subtract np (radii np contour c ! k) (avg_radius np contour c)\<bar>
              \<le> \<bar>np_subtract np (dev_radius np contour c) (avg_radius np contour c)\<bar>) \<and>
         (\<forall>k<deviation_idx np contour c. \<bar>np_subtract np (radii np contour c ! k) (avg_radius np contour c)\<bar>
              < \<bar>np_subtract np (dev_radius np contour c) (avg_radius np contour c)\<bar>) \<and>
         (JUMP_THRESHOLD < max_jump np contour c \<longrightarrow>
            scan np ((contour, name) # rest) c = Inr (defective np name contour c) \<and>
            defective np name contour c ''location'' =
              Some (as_tuple (contour ! defect_idx np contour c)) \<and>
            defective np name contour c ''defect_type'' = Some (PyStr (classify np name contour c)))"
proof -
  have s: "JUMP_THRESHOLD < max_jump np contour c \<longrightarrow>
            scan np ((contour, name) # rest) c = Inr (defective np name contour c) \<and>
            defective np name contour c ''location'' =
              Some (as_tuple (contour ! defect_idx np contour c)) \<and>
            defective np name contour c ''defect_type'' = Some (PyStr (classify np name contour c))"
    using scan_first [OF assms, of np c name rest] by (simp only: defective_fields) simp
  have d: "dev_radius np contour c = radii np contour c ! deviation_idx np contour c"
    by (rule dev_radius_def)
  from defect_idx_spec [OF assms, of np c] deviation_idx_spec [OF assms, of np c] s d
  show ?thesis by blast
qed

theorem first_maximal_index_witness:
  "outer_oval \<noteq> [] \<and>
   radii exact_numpy outer_oval (10, 10) = [10, 5, 10, 5] \<and>
   avg_radius exact_numpy outer_oval (10, 10) = 15 / 2 \<and>
   diffs exact_numpy outer_oval (10, 10) = [5, 5, 5, 5] \<and>
   max_jump exact_numpy outer_oval (10, 10) = 5 \<and>
   JUMP_THRESHOLD < max_jump exact_numpy outer_oval (10, 10) \<and>
   defect_idx exact_numpy outer_oval (10, 10) = 0 \<and>
   deviation_idx exact_numpy outer_oval (10, 10) = 0 \<and>
   dev_radius exact_numpy outer_oval (10, 10) = 10 \<and>
   find_and_analyze_ring polygon_cv exact_numpy [outer_oval, inner_round] =
     scan exact_numpy [(outer_oval, ''Outer''), (inner_round, ''Inner'')] (10, 10) \<and>
   scan exact_numpy [(outer_oval, ''Outer''), (inner_round, ''Inner'')] (10, 10) =
     Inr (defective exact_numpy ''Outer'' outer_oval (10, 10)) \<and>
   defective exact_numpy ''Outer'' outer_oval (10, 10) ''location'' = Some (PyTuple 20 10) \<and>
   defective exact_numpy ''Outer'' outer_oval (10, 10) ''defect_type'' = Some (PyStr ''Flash'')"
proof -
  have a1: "outer_oval \<noteq> []" by (rule nonempty_vals)
  have r: "radii exact_numpy outer_oval (10, 10) = [10, 5, 10, 5]"
    by (simp add: outer_oval_def sqrt_squares exact_numpy_fields)
  have av: "avg_radius exact_numpy outer_oval (10, 10) = 15 / 2"
    by (simp add: avg_radius_def exact_numpy_fields r del: radii.simps)
  have d: "diffs exact_numpy outer_oval (10, 10) = [5, 5, 5, 5]"
    by (simp add: diffs_def r np_roll1_def exact_numpy_fields del: radii.simps)
  have m: "max_jump exact_numpy outer_oval (10, 10) = 5"
    by (simp add: max_jump_def d)
  have a4: "JUMP_THRESHOLD < max_jump exact_numpy outer_oval (10, 10)"
    by (simp add: m JUMP_THRESHOLD_def)
  have a5: "as_tuple (outer_oval ! 0) = PyTuple 20 10"
    by (simp add: outer_oval_def as_tuple_def)
  note A = first_maximal_index [OF a1, of exact_numpy "(10, 10)" "''Outer''"
      "[(inner_round, ''Inner'')]"]
  have i0: "defect_idx exact_numpy outer_oval (10, 10) = 0"
  proof (rule ccontr)
    assume "defect_idx exact_numpy outer_oval (10, 10) \<noteq> 0"
    then have "0 < defect_idx exact_numpy outer_oval (10, 10)" by simp
    with A have "diffs exact_numpy outer_oval (10, 10) ! 0
        < max_jump exact_numpy outer_oval (10, 10)" by blast
    then show False by (simp add: d m)
  qed
  have len: "length outer_oval = 4" by (simp add: outer_oval_def)
  have dr: "dev_radius exact_numpy outer_oval (10, 10) =
      [10, 5, 10, 5] ! deviation_idx exact_numpy outer_oval (10, 10)"
    using A r by simp
  have lt: "deviation_idx exact_numpy outer_oval (10, 10) < 4"
    using A len by simp
  have j0: "deviation_idx exact_numpy outer_oval (10, 10) = 0"
  proof (rule ccontr)
    assume "deviation_idx exact_numpy outer_oval (10, 10) \<noteq> 0"
    then have "0 < deviation_idx exact_numpy outer_oval (10, 10)" by simp
    with A have "\<bar>np_subtract exact_numpy (radii exact_numpy outer_oval (10, 10) ! 0)
          (avg_radius exact_numpy outer_oval (10, 10))\<bar>
        < \<bar>np_subtract exact_numpy (dev_radius exact_numpy outer_oval (10, 10))
          (avg_radius exact_numpy outer_oval (10, 10))\<bar>" by blast
    then have less: "5 / 2 < \<bar>dev_radius exact_numpy outer_oval (10, 10) - 15 / 2\<bar>"
      by (simp add: r av exact_numpy_fields del: radii.simps)
    from lt dr have "dev_radius exact_numpy outer_oval (10, 10) = 10 \<or>
        dev_radius exact_numpy outer_oval (10, 10) = 5"
      by (auto simp add: less_Suc_eq numeral_eq_Suc)
    with less show False by auto
  qed
  have dv: "dev_radius exact_numpy outer_oval (10, 10) = 10"
    using dr j0 by simp
  have cl: "classify exact_numpy ''Outer'' outer_oval (10, 10) = ''Flash''"
    by (simp add: classify_def dv av)
  from A a4 have s: "scan exact_numpy [(outer_oval, ''Outer''), (inner_round, ''Inner'')] (10, 10) =
      Inr (defective exact_numpy ''Outer'' outer_oval (10, 10))"
    by blast
  have loc: "defective exact_numpy ''Outer'' outer_oval (10, 10) ''location'' = Some (PyTuple 20 10)"
    by (simp add: defective_fields i0 a5)
  have ty: "defective exact_numpy ''Outer'' outer_oval (10, 10) ''defect_type'' =
      Some (PyStr ''Flash'')"
    by (simp add: defective_fields cl)
  have "find_and_analyze_ring polygon_cv exact_numpy [outer_oval, inner_round] =
        scan exact_numpy [(outer_oval, ''Outer''), (inner_round, ''Inner'')]
          (registration_center (moments polygon_cv outer_oval) (moments polygon_cv inner_round))"
    by (rule ring_scan) (simp_all add: traced_vals selected_vals moments_vals)
  then have run: "find_and_analyze_ring polygon_cv exact_numpy [outer_oval, inner_round] =
      scan exact_numpy [(outer_oval, ''Outer''), (inner_round, ''Inner'')] (10, 10)"
    by (simp only: traced_vals moments_vals center_vals)
  from a1 r av d m a4 i0 j0 dv run s loc ty show ?thesis
    by (intro conjI)
qed


text \<open>
  Claim C9. When the tracer returns two or more contours, the two selected ones are the
  contours at two different positions \<open>i\<close> and \<open>j\<close> of the traced list such that no contour
  has a larger area than the one at \<open>i\<close>, no contour other than that one has a larger area
  than the one at \<open>j\<close>, and every contour of equal area comes later in the traced list
  (the sort is stable). The contour at \<open>i\<close> is scanned as the outer boundary and the one at
  \<open>j\<close> as the inner boundary.
\<close>

theorem two_largest_selected:
  assumes "findContours cv (threshold cv img) = cs" and "2 \<le> length cs"
  shows "\<exists>i j. i < length cs \<and> j < length cs \<and> i \<noteq> j \<and>
           take 2 (sorted_reverse (contourArea cv) cs) = [cs ! i, cs ! j] \<and>
           (\<forall>k<length cs. contourArea cv (cs ! k) \<le> contourArea cv (cs ! i)) \<and>
           (\<forall>k<length cs. k \<noteq> i \<longrightarrow> contourArea cv (cs ! k) \<le> contourArea cv (cs ! j)) \<and>
           (\<forall>k<i. contourArea cv (cs ! k) < contourArea cv (cs ! i)) \<and>
           (\<forall>k<j. k \<noteq> i \<longrightarrow> contourArea cv (cs ! k) < contourArea cv (cs ! j)) \<and>
           (m00 (moments cv (cs ! i)) \<noteq> 0 \<and> m00 (moments cv (cs ! j)) \<noteq> 0 \<longrightarrow>
              find_and_analyze_ring cv np img =
                scan np [(cs ! i, ''Outer''), (cs ! j, ''Inner'')]
                  (registration_center (moments cv (cs ! i)) (moments cv (cs ! j))))"
proof -
  from top_two_sort_key [OF assms(2), of "contourArea cv"] obtain i j where
    ij: "i < length cs" "j < length cs" "i \<noteq> j" and
    t: "take 2 (sorted_reverse (contourArea cv) cs) = [cs ! i, cs ! j]" and
    A: "\<forall>k<length cs. contourArea cv (cs ! k) \<le> contourArea cv (cs ! i)" and
    B: "\<forall>k<length cs. k \<noteq> i \<longrightarrow> contourArea cv (cs ! k) \<le> contourArea cv (cs ! j)" and
    C: "\<forall>k<i. contourArea cv (cs ! k) < contourArea cv (cs ! i)" and
    D: "\<forall>k<j. k \<noteq> i \<longrightarrow> contourArea cv (cs ! k) < contourArea cv (cs ! j)"
    unfolding sorted_reverse_sort_key by blast
  have len: "2 \<le> length (findContours cv (threshold cv img))" using assms by simp
  have sel: "take 2 (sorted_reverse (contourArea cv) (findContours cv (threshold cv img))) =
      [cs ! i, cs ! j]" using t assms(1) by simp
  have E: "m00 (moments cv (cs ! i)) \<noteq> 0 \<and> m00 (moments cv (cs ! j)) \<noteq> 0 \<longrightarrow>
              find_and_analyze_ring cv np img =
                scan np [(cs ! i, ''Outer''), (cs ! j, ''Inner'')]
                  (registration_center (moments cv (cs ! i)) (moments cv (cs ! j)))"
    using ring_scan [OF len sel] by blast
  from ij t A B C D E show ?thesis by blast
qed

theorem two_largest_selected_witness:
  "findContours polygon_cv (threshold polygon_cv [[(1, 1)], outer_round, segment]) =
     [[(1, 1)], outer_round, segment] \<and>
   2 \<le> length [[(1, 1)], outer_round, segment] \<and>
   map (contourArea polygon_cv) [[(1, 1)], outer_round, segment] = [0, 50, 0] \<and>
   take 2 (sorted_reverse (contourArea polygon_cv) [[(1, 1)], outer_round, segment]) =
     [outer_round, [(1, 1)]] \<and>
   (\<exists>i j. i < length [[(1, 1)], outer_round, segment] \<and>
      j < length [[(1, 1)], outer_round, segment] \<and> i \<noteq> j \<and>
      take 2 (sorted_reverse (contourArea polygon_cv) [[(1, 1)], outer_round, segment]) =
        [[[(1, 1)], outer_round, segment] ! i, [[(1, 1)], outer_round, segment] ! j] \<and>
      (\<forall>k<j. k \<noteq> i \<longrightarrow>
          contourArea polygon_cv ([[(1, 1)], outer_round, segment] ! k)
            < contourArea polygon_cv ([[(1, 1)], outer_round, segment] ! j)))"
proof -
  have a: "findContours polygon_cv (threshold polygon_cv [[(1, 1)], outer_round, segment]) =
     [[(1, 1)], outer_round, segment]"
    by (simp only: traced_vals)
  have b: "2 \<le> length [[(1, 1)], outer_round, segment]" by simp
  have p: "polygon_area [(1, 1)] = 0"
    by (simp add: polygon_area_def polygon_a00_def np_roll1_def)
  have c: "map (contourArea polygon_cv) [[(1, 1)], outer_round, segment] = [0, 50, 0]"
    by (simp add: traced_vals area_vals p)
  have d: "take 2 (sorted_reverse (contourArea polygon_cv) [[(1, 1)], outer_round, segment]) =
     [outer_round, [(1, 1)]]"
    unfolding traced_vals sorted_reverse_def by (simp add: area_vals p)
  obtain i j where
    e: "i < length [[(1, 1)], outer_round, segment]"
       "j < length [[(1, 1)], outer_round, segment]" "i \<noteq> j"
       "take 2 (sorted_reverse (contourArea polygon_cv) [[(1, 1)], outer_round, segment]) =
        [[[(1, 1)], outer_round, segment] ! i, [[(1, 1)], outer_round, segment] ! j]"
       "\<forall>k<j. k \<noteq> i \<longrightarrow>
          contourArea polygon_cv ([[(1, 1)], outer_round, segment] ! k)
            < contourArea polygon_cv ([[(1, 1)], outer_round, segment] ! j)"
    using two_largest_selected [OF a b, where np = exact_numpy] by (elim exE conjE)
  from e have e': "\<exists>i j. i < length [[(1, 1)], outer_round, segment] \<and>
      j < length [[(1, 1)], outer_round, segment] \<and> i \<noteq> j \<and>
      take 2 (sorted_reverse (contourArea polygon_cv) [[(1, 1)], outer_round, segment]) =
        [[[(1, 1)], outer_round, segment] ! i, [[(1, 1)], outer_round, segment] ! j] \<and>
      (\<forall>k<j. k \<noteq> i \<longrightarrow>
          contourArea polygon_cv ([[(1, 1)], outer_round, segment] ! k)
            < contourArea polygon_cv ([[(1, 1)], outer_round, segment] ! j))"
    by (intro exI conjI)
  from a b c d e' show ?thesis by (intro conjI)
qed


end
